theory Spec2Isabelle
  imports Main
begin

section \<open>SPIR-V generation from the AST (OutputSPIRV.cpp)\<close>

subsection \<open>Ids, types and instructions\<close>

text \<open>
  \<^verbatim>\<open>spv::StorageClass\<close>.  \<open>StorageClassMax\<close> marks an rvalue access chain.
\<close>

datatype StorageClass =
    StorageClassUniformConstant
  | StorageClassInput
  | StorageClassUniform
  | StorageClassOutput
  | StorageClassWorkgroup
  | StorageClassPrivate
  | StorageClassFunction
  | StorageClassPushConstant
  | StorageClassStorageBuffer
  | StorageClassMax

datatype TLayoutBlockStorage = EbsUnspecified | EbsShared | EbsPacked | EbsStd140 | EbsStd430

datatype TBasicType =
    EbtVoid | EbtFloat | EbtDouble | EbtInt | EbtUInt | EbtBool
  | EbtSampler | EbtImage | EbtStruct | EbtInterfaceBlock

text \<open>
  \<^verbatim>\<open>SpirvType\<close> (BuildSPIRV.h): the fields that OutputSPIRV.cpp reads or writes.
\<close>

record SpirvType =
  spirvBasicType :: TBasicType
  primarySize :: nat
  secondarySize :: nat

text \<open>
  Modelled from the spec: the id allocation and interning of the builder (SPIRVBuilder,
  BuildSPIRV.h and BuildSPIRV.cpp), which is not part of the sources at hand.  Section 4.1:
  \<open>fresh_id\<close> is strictly monotonic and never reuses an id; \<open>intern_type\<close>,
  \<open>intern_pointer_type\<close> and \<open>intern_scalar_constant\<close> are idempotent, identical
  arguments giving the same id.  An id is therefore modelled by what it names: the invalid id
  (zero), the n-th id handed out by \<open>getNewId\<close>, or an interned constant or type.
  The float constants that the traverser asks for by value are the integral literals
  \<open>0.0f\<close> and \<open>1.0f\<close>, kept as integers.
\<close>

datatype IdRef =
    InvalidId
  | NewId nat
  | UintConstant nat
  | IntConstant int
  | FloatConstant int
  | BoolConstant bool
  | SpirvTypeId SpirvType
  | TypePointerId IdRef StorageClass

definition valid :: "IdRef \<Rightarrow> bool" where
  "valid i = (i \<noteq> InvalidId)"

text \<open>
  The instructions that the traverser writes, one constructor for each \<^verbatim>\<open>spirv::Write*\<close>
  function used; the operands are in the order of the call.  A blob is the list of the
  instructions written to it.
\<close>

datatype AtomicOp =
    AtomicIAdd | AtomicUMin | AtomicSMin | AtomicUMax | AtomicSMax
  | AtomicAnd | AtomicOr | AtomicXor | AtomicExchange

datatype Instruction =
    OpAccessChain IdRef IdRef IdRef "IdRef list"
  | OpCompositeExtract IdRef IdRef IdRef "nat list"
  | OpCompositeConstruct IdRef IdRef "IdRef list"
  | OpConstantComposite IdRef IdRef "IdRef list"
  | OpVectorShuffle IdRef IdRef IdRef IdRef "nat list"
  | OpVectorExtractDynamic IdRef IdRef IdRef IdRef
  | OpLoad IdRef IdRef IdRef
  | OpStore IdRef IdRef
  | OpVariable IdRef IdRef StorageClass
  | OpFunctionCall IdRef IdRef IdRef "IdRef list"
  | OpAtomic AtomicOp IdRef IdRef IdRef IdRef IdRef IdRef
  | OpAtomicCompareExchange IdRef IdRef IdRef IdRef IdRef IdRef IdRef IdRef

datatype error =
    AssertionFailure string
  | IndexOutOfRange string
  | Unreachable string

subsection \<open>The builder\<close>

text \<open>
  Modelled from the spec: the state of the builder (SPIRVBuilder), which is not part of the
  sources at hand.  Section 4.1: it owns the growing module and allocates fresh result ids;
  \<open>declare_variable\<close> emits an \<open>OpVariable\<close> in the module scope for a storage class
  other than Function and in the function entry block for Function.  The names of the
  variables and the termination of blocks are left out: no function below ends a block.
\<close>

record SPIRVBuilder =
  mNextId :: nat
  mSpirvCurrentFunctionBlock :: "Instruction list"
  mSpirvTypeAndConstantDecls :: "Instruction list"
  mSpirvVariableDecls :: "Instruction list"
  mLocalVariables :: "Instruction list"

definition getNewId :: "SPIRVBuilder \<Rightarrow> IdRef \<times> SPIRVBuilder" where
  "getNewId b = (NewId (mNextId b), b\<lparr>mNextId := Suc (mNextId b)\<rparr>)"

definition getUintConstant :: "nat \<Rightarrow> IdRef" where
  "getUintConstant v = UintConstant v"

definition getIntConstant :: "int \<Rightarrow> IdRef" where
  "getIntConstant v = IntConstant v"

definition getFloatConstant :: "int \<Rightarrow> IdRef" where
  "getFloatConstant v = FloatConstant v"

definition getBoolConstant :: "bool \<Rightarrow> IdRef" where
  "getBoolConstant v = BoolConstant v"

definition getSpirvTypeData :: "SpirvType \<Rightarrow> IdRef" where
  "getSpirvTypeData t = SpirvTypeId t"

definition getTypePointerId :: "IdRef \<Rightarrow> StorageClass \<Rightarrow> IdRef" where
  "getTypePointerId typeId sc = TypePointerId typeId sc"

definition writeBlock :: "Instruction \<Rightarrow> SPIRVBuilder \<Rightarrow> SPIRVBuilder" where
  "writeBlock i b = b\<lparr>mSpirvCurrentFunctionBlock := mSpirvCurrentFunctionBlock b @ [i]\<rparr>"

definition declareVariable ::
  "IdRef \<Rightarrow> StorageClass \<Rightarrow> SPIRVBuilder \<Rightarrow> IdRef \<times> SPIRVBuilder" where
  "declareVariable typeId sc b =
     (case getNewId b of (variableId, b1) \<Rightarrow>
        let v = OpVariable (getTypePointerId typeId sc) variableId sc
        in (variableId,
            if sc = StorageClassFunction
            then b1\<lparr>mLocalVariables := mLocalVariables b1 @ [v]\<rparr>
            else b1\<lparr>mSpirvVariableDecls := mSpirvVariableDecls b1 @ [v]\<rparr>))"

subsection \<open>Access chains and node data\<close>

text \<open>
  \<^verbatim>\<open>SpirvIdOrLiteral\<close>: either an id or a literal; when the id is not valid, a literal is
  assumed.  The two constructors of the struct are \<open>fromId\<close> and \<open>fromLiteral\<close>.
\<close>

record SpirvIdOrLiteral =
  idPart :: IdRef
  literalPart :: nat

definition fromId :: "IdRef \<Rightarrow> SpirvIdOrLiteral" where
  "fromId i = \<lparr>idPart = i, literalPart = 0\<rparr>"

definition fromLiteral :: "nat \<Rightarrow> SpirvIdOrLiteral" where
  "fromLiteral n = \<lparr>idPart = InvalidId, literalPart = n\<rparr>"

record AccessChain =
  storageClass :: StorageClass
  swizzles :: "nat list"
  dynamicComponent :: IdRef
  preSwizzleTypeId :: IdRef
  postSwizzleTypeId :: IdRef
  postDynamicComponentTypeId :: IdRef
  accessChainId :: IdRef
  areAllIndicesLiteral :: bool
  swizzledVectorComponentCount :: nat
  baseBlockStorage :: TLayoutBlockStorage

record NodeData =
  baseId :: IdRef
  idList :: "SpirvIdOrLiteral list"
  accessChain :: AccessChain

text \<open>The value of \<^verbatim>\<open>NodeData{}\<close>: the default member initializers of the two structs.\<close>

definition emptyAccessChain :: AccessChain where
  "emptyAccessChain =
     \<lparr>storageClass = StorageClassMax, swizzles = [], dynamicComponent = InvalidId,
      preSwizzleTypeId = InvalidId, postSwizzleTypeId = InvalidId,
      postDynamicComponentTypeId = InvalidId, accessChainId = InvalidId,
      areAllIndicesLiteral = True, swizzledVectorComponentCount = 0,
      baseBlockStorage = EbsUnspecified\<rparr>"

definition emptyNodeData :: NodeData where
  "emptyNodeData = \<lparr>baseId = InvalidId, idList = [], accessChain = emptyAccessChain\<rparr>"

definition IsAccessChainRValue :: "AccessChain \<Rightarrow> bool" where
  "IsAccessChainRValue ac = (storageClass ac = StorageClassMax)"

definition IsAccessChainUnindexedLValue :: "NodeData \<Rightarrow> bool" where
  "IsAccessChainUnindexedLValue d =
     (\<not> IsAccessChainRValue (accessChain d) \<and> idList d = [] \<and>
      swizzles (accessChain d) = [] \<and> \<not> valid (dynamicComponent (accessChain d)))"

definition nodeDataInitLValue ::
  "IdRef \<Rightarrow> IdRef \<Rightarrow> StorageClass \<Rightarrow> TLayoutBlockStorage \<Rightarrow> NodeData" where
  "nodeDataInitLValue baseIdIn typeId sc blockStorage =
     emptyNodeData
       \<lparr>baseId := baseIdIn,
        accessChain := emptyAccessChain
          \<lparr>preSwizzleTypeId := typeId, storageClass := sc, baseBlockStorage := blockStorage\<rparr>\<rparr>"

definition nodeDataInitRValue :: "IdRef \<Rightarrow> IdRef \<Rightarrow> NodeData" where
  "nodeDataInitRValue baseIdIn typeId =
     emptyNodeData
       \<lparr>baseId := baseIdIn, accessChain := emptyAccessChain\<lparr>preSwizzleTypeId := typeId\<rparr>\<rparr>"

definition accessChainPush :: "NodeData \<Rightarrow> IdRef \<Rightarrow> IdRef \<Rightarrow> NodeData" where
  "accessChainPush d index typeId =
     d\<lparr>idList := idList d @ [fromId index],
       accessChain := (accessChain d)
         \<lparr>areAllIndicesLiteral := False, preSwizzleTypeId := typeId\<rparr>\<rparr>"

definition accessChainPushLiteral :: "NodeData \<Rightarrow> nat \<Rightarrow> IdRef \<Rightarrow> NodeData" where
  "accessChainPushLiteral d index typeId =
     d\<lparr>idList := idList d @ [fromLiteral index],
       accessChain := (accessChain d)\<lparr>preSwizzleTypeId := typeId\<rparr>\<rparr>"

text \<open>The conversion of an \<^verbatim>\<open>int\<close> to \<^verbatim>\<open>uint32_t\<close>.\<close>

definition toUint32 :: "int \<Rightarrow> nat" where
  "toUint32 x = nat (x mod 2 ^ 32)"

definition accessChainPushSwizzle ::
  "NodeData \<Rightarrow> int list \<Rightarrow> IdRef \<Rightarrow> nat \<Rightarrow> error + NodeData" where
  "accessChainPushSwizzle d swizzle typeId componentCount =
     (if swizzles (accessChain d) \<noteq> []
      then Inl (AssertionFailure ''accessChain.swizzles.empty()'')
      else if length swizzle = 1
      then Inr (accessChainPushLiteral d (toUint32 (swizzle ! 0)) typeId)
      else Inr (d\<lparr>accessChain := (accessChain d)
                  \<lparr>swizzles := swizzles (accessChain d) @ map toUint32 swizzle,
                   postSwizzleTypeId := typeId,
                   swizzledVectorComponentCount := componentCount\<rparr>\<rparr>))"

definition accessChainPushDynamicComponent ::
  "NodeData \<Rightarrow> IdRef \<Rightarrow> IdRef \<Rightarrow> SPIRVBuilder \<Rightarrow> error + (NodeData \<times> SPIRVBuilder)" where
  "accessChainPushDynamicComponent d index typeId b =
     (let ac = accessChain d in
      if valid (dynamicComponent ac)
      then Inl (AssertionFailure ''!accessChain.dynamicComponent.valid()'')
      else if IsAccessChainRValue ac \<and> areAllIndicesLiteral ac
      then Inr (d\<lparr>accessChain := ac\<lparr>dynamicComponent := index,
                                     postDynamicComponentTypeId := typeId\<rparr>\<rparr>, b)
      else if swizzles ac \<noteq> []
      then
        (if \<not> 1 < length (swizzles ac)
         then Inl (AssertionFailure ''accessChain.swizzles.size() > 1'')
         else
           let swizzleIds = map getUintConstant (swizzles ac);
               uintTypeId = getSpirvTypeData
                 \<lparr>spirvBasicType = EbtUInt, primarySize = 1, secondarySize = 1\<rparr>;
               uvecTypeId = getSpirvTypeData
                 \<lparr>spirvBasicType = EbtUInt, primarySize = length swizzleIds mod 256,
                  secondarySize = 1\<rparr>
           in case getNewId b of (swizzlesId, b1) \<Rightarrow>
              let b2 = b1\<lparr>mSpirvTypeAndConstantDecls := mSpirvTypeAndConstantDecls b1 @
                            [OpConstantComposite uvecTypeId swizzlesId swizzleIds]\<rparr>
              in case getNewId b2 of (newIndex, b3) \<Rightarrow>
                 let b4 = writeBlock
                            (OpVectorExtractDynamic uintTypeId newIndex swizzlesId index) b3
                 in Inr (accessChainPush
                           (d\<lparr>accessChain := ac\<lparr>swizzles := []\<rparr>\<rparr>) newIndex typeId, b4))
      else Inr (accessChainPush d index typeId, b))"

text \<open>
  \<^verbatim>\<open>makeAccessChainIdList\<close>: a literal index is replaced by the id of the constant.
\<close>

definition makeAccessChainIdList :: "NodeData \<Rightarrow> IdRef list" where
  "makeAccessChainIdList d =
     map (\<lambda>e. if \<not> valid (idPart e) then getUintConstant (literalPart e) else idPart e)
         (idList d)"

text \<open>
  \<^verbatim>\<open>makeAccessChainLiteralList\<close>: asserts at every index that it is a literal.
\<close>

fun literalsOf :: "SpirvIdOrLiteral list \<Rightarrow> error + nat list" where
  "literalsOf [] = Inr []"
| "literalsOf (e # es) =
     (if valid (idPart e) then Inl (AssertionFailure ''!data->idList[index].id.valid()'')
      else case literalsOf es of
             Inl err \<Rightarrow> Inl err
           | Inr ls \<Rightarrow> Inr (literalPart e # ls))"

definition makeAccessChainLiteralList :: "NodeData \<Rightarrow> error + nat list" where
  "makeAccessChainLiteralList d = literalsOf (idList d)"

definition getAccessChainTypeId :: "NodeData \<Rightarrow> error + IdRef" where
  "getAccessChainTypeId d =
     (let ac = accessChain d in
      if valid (postDynamicComponentTypeId ac) then Inr (postDynamicComponentTypeId ac)
      else if valid (postSwizzleTypeId ac) then Inr (postSwizzleTypeId ac)
      else if \<not> valid (preSwizzleTypeId ac)
      then Inl (AssertionFailure ''accessChain.preSwizzleTypeId.valid()'')
      else Inr (preSwizzleTypeId ac))"

definition accessChainCollapse ::
  "NodeData \<Rightarrow> SPIRVBuilder \<Rightarrow> error + (IdRef \<times> NodeData \<times> SPIRVBuilder)" where
  "accessChainCollapse d b =
     (let ac = accessChain d in
      if storageClass ac = StorageClassMax
      then Inl (AssertionFailure ''accessChain.storageClass != spv::StorageClassMax'')
      else if valid (accessChainId ac) then Inr (accessChainId ac, d, b)
      else if idList d = []
      then Inr (baseId d, d\<lparr>accessChain := ac\<lparr>accessChainId := baseId d\<rparr>\<rparr>, b)
      else
        let indexIds = makeAccessChainIdList d;
            typePointerId = getTypePointerId (preSwizzleTypeId ac) (storageClass ac)
        in case getNewId b of (newId, b1) \<Rightarrow>
           Inr (newId, d\<lparr>accessChain := ac\<lparr>accessChainId := newId\<rparr>\<rparr>,
                writeBlock (OpAccessChain typePointerId newId (baseId d) indexIds) b1))"

text \<open>
  \<^verbatim>\<open>accessChainLoad\<close>, in the three steps of its body.  The first step loads the value
  before swizzle and dynamic component (the \<^verbatim>\<open>if (IsAccessChainRValue(accessChain))\<close>
  statement); it changes the node data when an rvalue is spilled to a temporary variable, and
  through \<open>accessChainCollapse\<close>.
\<close>

definition accessChainLoadBase ::
  "NodeData \<Rightarrow> SPIRVBuilder \<Rightarrow> error + (IdRef \<times> NodeData \<times> SPIRVBuilder)" where
  "accessChainLoadBase d b =
     (let ac = accessChain d; loadResult = baseId d in
      if IsAccessChainRValue ac
      then
        (if 0 < length (idList d)
         then
           (if areAllIndicesLiteral ac
            then
              (case makeAccessChainLiteralList d of
                 Inl err \<Rightarrow> Inl err
               | Inr indexList \<Rightarrow>
                   (case getNewId b of (result, b1) \<Rightarrow>
                      Inr (result, d,
                           writeBlock (OpCompositeExtract (preSwizzleTypeId ac) result
                                         loadResult indexList) b1)))
            else
              (case declareVariable (preSwizzleTypeId ac) StorageClassFunction b of
                 (tempVar, b1) \<Rightarrow>
                   let b2 = writeBlock (OpStore tempVar loadResult) b1;
                       d1 = d\<lparr>baseId := tempVar,
                              accessChain := ac\<lparr>storageClass := StorageClassFunction\<rparr>\<rparr>
                   in (case accessChainCollapse d1 b2 of
                         Inl err \<Rightarrow> Inl err
                       | Inr (chainId, d2, b3) \<Rightarrow>
                           (case getNewId b3 of (result, b4) \<Rightarrow>
                              Inr (result, d2,
                                   writeBlock (OpLoad (preSwizzleTypeId (accessChain d2)) result
                                                 chainId) b4)))))
         else Inr (loadResult, d, b))
      else
        (case accessChainCollapse d b of
           Inl err \<Rightarrow> Inl err
         | Inr (chainId, d1, b1) \<Rightarrow>
             (case getNewId b1 of (result, b2) \<Rightarrow>
                Inr (result, d1,
                     writeBlock (OpLoad (preSwizzleTypeId (accessChain d1)) result
                                   chainId) b2))))"

text \<open>The \<^verbatim>\<open>if (!accessChain.swizzles.empty())\<close> statement of \<^verbatim>\<open>accessChainLoad\<close>.\<close>

definition accessChainLoadSwizzle ::
  "NodeData \<Rightarrow> IdRef \<Rightarrow> SPIRVBuilder \<Rightarrow> error + (IdRef \<times> SPIRVBuilder)" where
  "accessChainLoadSwizzle d loadResult b =
     (let ac = accessChain d in
      if swizzles ac \<noteq> []
      then
        (if \<not> 1 < length (swizzles ac)
         then Inl (AssertionFailure ''accessChain.swizzles.size() > 1'')
         else case getNewId b of (result, b1) \<Rightarrow>
                Inr (result,
                     writeBlock (OpVectorShuffle (postSwizzleTypeId ac) result loadResult
                                   loadResult (swizzles ac)) b1))
      else Inr (loadResult, b))"

text \<open>The \<^verbatim>\<open>if (accessChain.dynamicComponent.valid())\<close> statement of \<^verbatim>\<open>accessChainLoad\<close>.\<close>

definition accessChainLoadDynamicComponent ::
  "NodeData \<Rightarrow> IdRef \<Rightarrow> SPIRVBuilder \<Rightarrow> error + (IdRef \<times> SPIRVBuilder)" where
  "accessChainLoadDynamicComponent d loadResult b =
     (let ac = accessChain d in
      if valid (dynamicComponent ac)
      then
        (if swizzles ac \<noteq> []
         then Inl (AssertionFailure ''accessChain.swizzles.empty()'')
         else case getNewId b of (result, b1) \<Rightarrow>
                Inr (result,
                     writeBlock (OpVectorExtractDynamic (postDynamicComponentTypeId ac) result
                                   loadResult (dynamicComponent ac)) b1))
      else Inr (loadResult, b))"

definition accessChainLoad ::
  "NodeData \<Rightarrow> SPIRVBuilder \<Rightarrow> error + (IdRef \<times> NodeData \<times> SPIRVBuilder)" where
  "accessChainLoad d b =
     (case accessChainLoadBase d b of
        Inl err \<Rightarrow> Inl err
      | Inr (loadResult, d1, b1) \<Rightarrow>
          (case accessChainLoadSwizzle d1 loadResult b1 of
             Inl err \<Rightarrow> Inl err
           | Inr (loadResult2, b2) \<Rightarrow>
               (case accessChainLoadDynamicComponent d1 loadResult2 b2 of
                  Inl err \<Rightarrow> Inl err
                | Inr (loadResult3, b3) \<Rightarrow> Inr (loadResult3, d1, b3))))"

text \<open>
  The two loops of \<^verbatim>\<open>accessChainStore\<close> that build the shuffle mask.  The first makes the
  identity swizzle; the second overwrites \<^verbatim>\<open>swizzleList[dstComponent]\<close>, where an index
  outside of the vector is outside of what \<^verbatim>\<open>operator[]\<close> defines.  \<open>srcComponent\<close> and
  the sum are \<^verbatim>\<open>uint32_t\<close>.
\<close>

fun overwriteSwizzles :: "nat list \<Rightarrow> nat \<Rightarrow> nat \<Rightarrow> nat list \<Rightarrow> error + nat list" where
  "overwriteSwizzles [] componentCount srcComponent swizzleList = Inr swizzleList"
| "overwriteSwizzles (dstComponent # rest) componentCount srcComponent swizzleList =
     (if \<not> dstComponent < length swizzleList
      then Inl (IndexOutOfRange ''swizzleList[dstComponent]'')
      else overwriteSwizzles rest componentCount ((srcComponent + 1) mod 2 ^ 32)
             (swizzleList[dstComponent := (componentCount + srcComponent) mod 2 ^ 32]))"

definition storeSwizzleList :: "AccessChain \<Rightarrow> error + nat list" where
  "storeSwizzleList ac =
     overwriteSwizzles (swizzles ac) (swizzledVectorComponentCount ac) 0
       [0 ..< swizzledVectorComponentCount ac]"

definition accessChainStore ::
  "NodeData \<Rightarrow> IdRef \<Rightarrow> SPIRVBuilder \<Rightarrow> error + (NodeData \<times> SPIRVBuilder)" where
  "accessChainStore d val b =
     (let ac = accessChain d in
      if length (swizzles ac) = 1
      then Inl (AssertionFailure ''accessChain.swizzles.size() != 1'')
      else if valid (dynamicComponent ac)
      then Inl (AssertionFailure ''!accessChain.dynamicComponent.valid()'')
      else
        case accessChainCollapse d b of
          Inl err \<Rightarrow> Inl err
        | Inr (chainId, d1, b1) \<Rightarrow>
            (if swizzles (accessChain d1) \<noteq> []
             then
               (case getNewId b1 of (loadResult, b2) \<Rightarrow>
                  let b3 = writeBlock (OpLoad (preSwizzleTypeId (accessChain d1)) loadResult
                                         chainId) b2
                  in (case storeSwizzleList (accessChain d1) of
                        Inl err \<Rightarrow> Inl err
                      | Inr swizzleList \<Rightarrow>
                          (case getNewId b3 of (result, b4) \<Rightarrow>
                             let b5 = writeBlock
                                        (OpVectorShuffle (postSwizzleTypeId (accessChain d1))
                                           result loadResult val swizzleList) b4
                             in Inr (d1, writeBlock (OpStore chainId result) b5))))
             else Inr (d1, writeBlock (OpStore chainId val) b1)))"

subsection \<open>Constructors\<close>

text \<open>
  What OutputSPIRV.cpp reads of a \<^verbatim>\<open>TType\<close> (Types.h is not part of the sources at hand):
  each getter is a field, and \<open>getSpirvType\<close> is the \<^verbatim>\<open>SpirvType\<close> that
  \<^verbatim>\<open>mBuilder.getSpirvType(type, EbsUnspecified)\<close> returns for it.
\<close>

record TType =
  getBasicType :: TBasicType
  getCols :: nat
  getRows :: nat
  getSpirvType :: SpirvType

text \<open>
  The loop of \<^verbatim>\<open>createConstructorMatrixFromScalar\<close> over the column indices.  The writes
  \<^verbatim>\<open>componentIds[columnIndex]\<close> and \<^verbatim>\<open>componentIds[columnIndex - 1]\<close> are defined only
  inside of the vector.
\<close>

fun matrixFromScalarColumns ::
  "nat list \<Rightarrow> IdRef \<Rightarrow> IdRef \<Rightarrow> IdRef \<Rightarrow> IdRef list \<Rightarrow> IdRef list \<Rightarrow> SPIRVBuilder \<Rightarrow>
   error + (IdRef list \<times> SPIRVBuilder)" where
  "matrixFromScalarColumns [] scalarId zeroId columnTypeId componentIds columnIds b =
     Inr (columnIds, b)"
| "matrixFromScalarColumns (columnIndex # rest) scalarId zeroId columnTypeId componentIds
     columnIds b =
     (case getNewId b of (columnId, b1) \<Rightarrow>
        if \<not> columnIndex < length componentIds
        then Inl (IndexOutOfRange ''componentIds[columnIndex]'')
        else
          let componentIds1 = componentIds[columnIndex := scalarId];
              componentIds2 = (if 0 < columnIndex
                               then componentIds1[columnIndex - 1 := zeroId]
                               else componentIds1)
          in matrixFromScalarColumns rest scalarId zeroId columnTypeId componentIds2
               (columnIds @ [columnId])
               (writeBlock (OpCompositeConstruct columnTypeId columnId componentIds2) b1))"

definition zeroConstant :: "TBasicType \<Rightarrow> error + IdRef" where
  "zeroConstant t =
     (case t of
        EbtFloat \<Rightarrow> Inr (getFloatConstant 0)
      | EbtInt \<Rightarrow> Inr (getIntConstant 0)
      | EbtUInt \<Rightarrow> Inr (getUintConstant 0)
      | EbtBool \<Rightarrow> Inr (getBoolConstant False)
      | _ \<Rightarrow> Inl (Unreachable ''type.getBasicType()''))"

definition createConstructorMatrixFromScalar ::
  "TType \<Rightarrow> IdRef \<Rightarrow> IdRef list \<Rightarrow> SPIRVBuilder \<Rightarrow> error + (IdRef \<times> SPIRVBuilder)" where
  "createConstructorMatrixFromScalar type typeId parameters b =
     (case parameters of
        [] \<Rightarrow> Inl (IndexOutOfRange ''parameters[0]'')
      | scalarId # _ \<Rightarrow>
          (case zeroConstant (getBasicType type) of
             Inl err \<Rightarrow> Inl err
           | Inr zeroId \<Rightarrow>
               let componentIds = replicate (getRows type) zeroId;
                   columnTypeId = getSpirvTypeData ((getSpirvType type)\<lparr>secondarySize := 1\<rparr>)
               in (case matrixFromScalarColumns [0 ..< getCols type] scalarId zeroId
                          columnTypeId componentIds [] b of
                     Inl err \<Rightarrow> Inl err
                   | Inr (columnIds, b1) \<Rightarrow>
                       (case getNewId b1 of (result, b2) \<Rightarrow>
                          Inr (result,
                               writeBlock (OpCompositeConstruct typeId result columnIds) b2)))))"

text \<open>
  \<^verbatim>\<open>createConstructorMatrixFromMatrix\<close>.  The first loop is the branch taken when the
  parameter has at least the columns and rows of the constructed type.
\<close>

fun matrixFromMatrixExtractColumns ::
  "nat list \<Rightarrow> IdRef \<Rightarrow> IdRef \<Rightarrow> IdRef \<Rightarrow> bool \<Rightarrow> nat list \<Rightarrow> IdRef list \<Rightarrow> SPIRVBuilder \<Rightarrow>
   IdRef list \<times> SPIRVBuilder" where
  "matrixFromMatrixExtractColumns [] parameter paramColumnTypeId columnTypeId needsSwizzle
     swizzle columnIds b = (columnIds, b)"
| "matrixFromMatrixExtractColumns (columnIndex # rest) parameter paramColumnTypeId columnTypeId
     needsSwizzle swizzle columnIds b =
     (case getNewId b of (parameterColumnId, b1) \<Rightarrow>
        let b2 = writeBlock (OpCompositeExtract paramColumnTypeId parameterColumnId parameter
                               [columnIndex]) b1
        in if needsSwizzle
           then (case getNewId b2 of (constructorColumnId, b3) \<Rightarrow>
                   matrixFromMatrixExtractColumns rest parameter paramColumnTypeId columnTypeId
                     needsSwizzle swizzle (columnIds @ [constructorColumnId])
                     (writeBlock (OpVectorShuffle columnTypeId constructorColumnId
                                    parameterColumnId parameterColumnId swizzle) b3))
           else matrixFromMatrixExtractColumns rest parameter paramColumnTypeId columnTypeId
                  needsSwizzle swizzle (columnIds @ [parameterColumnId]) b2)"

text \<open>
  The constant of the other branch for a component that is not taken from the parameter:
  the \<^verbatim>\<open>switch (type.getBasicType())\<close> with \<^verbatim>\<open>isOnDiagonal ? 0.0f : 1.0f\<close>,
  \<^verbatim>\<open>isOnDiagonal ? 0 : 1\<close> and \<^verbatim>\<open>getBoolConstant(isOnDiagonal)\<close>.
\<close>

definition identityComponent :: "TBasicType \<Rightarrow> bool \<Rightarrow> error + IdRef" where
  "identityComponent t isOnDiagonal =
     (case t of
        EbtFloat \<Rightarrow> Inr (getFloatConstant (if isOnDiagonal then 0 else 1))
      | EbtInt \<Rightarrow> Inr (getIntConstant (if isOnDiagonal then 0 else 1))
      | EbtUInt \<Rightarrow> Inr (getUintConstant (if isOnDiagonal then 0 else 1))
      | EbtBool \<Rightarrow> Inr (getBoolConstant isOnDiagonal)
      | _ \<Rightarrow> Inl (Unreachable ''type.getBasicType()''))"

text \<open>The inner loop over the component (row) indices of one column.\<close>

fun matrixFromMatrixComponents ::
  "nat list \<Rightarrow> nat \<Rightarrow> TType \<Rightarrow> TType \<Rightarrow> IdRef \<Rightarrow> IdRef \<Rightarrow> IdRef list \<Rightarrow> SPIRVBuilder \<Rightarrow>
   error + (IdRef list \<times> SPIRVBuilder)" where
  "matrixFromMatrixComponents [] columnIndex type parameterType paramComponentTypeId parameter
     componentIds b = Inr (componentIds, b)"
| "matrixFromMatrixComponents (componentIndex # rest) columnIndex type parameterType
     paramComponentTypeId parameter componentIds b =
     (if componentIndex < getRows parameterType
      then (case getNewId b of (componentId, b1) \<Rightarrow>
              matrixFromMatrixComponents rest columnIndex type parameterType
                paramComponentTypeId parameter (componentIds @ [componentId])
                (writeBlock (OpCompositeExtract paramComponentTypeId componentId parameter
                               [columnIndex, componentIndex]) b1))
      else (case identityComponent (getBasicType type) (columnIndex = componentIndex) of
              Inl err \<Rightarrow> Inl err
            | Inr componentId \<Rightarrow>
                matrixFromMatrixComponents rest columnIndex type parameterType
                  paramComponentTypeId parameter (componentIds @ [componentId]) b))"

text \<open>The outer loop over the column indices.\<close>

fun matrixFromMatrixColumns ::
  "nat list \<Rightarrow> TType \<Rightarrow> TType \<Rightarrow> IdRef \<Rightarrow> IdRef \<Rightarrow> IdRef \<Rightarrow> IdRef list \<Rightarrow> SPIRVBuilder \<Rightarrow>
   error + (IdRef list \<times> SPIRVBuilder)" where
  "matrixFromMatrixColumns [] type parameterType paramComponentTypeId columnTypeId parameter
     columnIds b = Inr (columnIds, b)"
| "matrixFromMatrixColumns (columnIndex # rest) type parameterType paramComponentTypeId
     columnTypeId parameter columnIds b =
     (case matrixFromMatrixComponents [0 ..< getRows type] columnIndex type parameterType
             paramComponentTypeId parameter [] b of
        Inl err \<Rightarrow> Inl err
      | Inr (componentIds, b1) \<Rightarrow>
          (case getNewId b1 of (columnId, b2) \<Rightarrow>
             matrixFromMatrixColumns rest type parameterType paramComponentTypeId columnTypeId
               parameter (columnIds @ [columnId])
               (writeBlock (OpCompositeConstruct columnTypeId columnId componentIds) b2)))"

definition createConstructorMatrixFromMatrix ::
  "TType \<Rightarrow> TType \<Rightarrow> IdRef \<Rightarrow> IdRef list \<Rightarrow> SPIRVBuilder \<Rightarrow> error + (IdRef \<times> SPIRVBuilder)" where
  "createConstructorMatrixFromMatrix type parameterType typeId parameters b =
     (if length parameters \<noteq> 1 then Inl (AssertionFailure ''parameters.size() == 1'')
      else
        let columnTypeId = getSpirvTypeData ((getSpirvType type)\<lparr>secondarySize := 1\<rparr>);
            columnsResult =
              (if getCols type \<le> getCols parameterType \<and> getRows type \<le> getRows parameterType
               then
                 let paramColumnTypeId =
                       getSpirvTypeData ((getSpirvType parameterType)\<lparr>secondarySize := 1\<rparr>);
                     needsSwizzle = getRows type < getRows parameterType;
                     swizzle = take (getRows type) [0, 1, 2, 3] @
                               replicate (getRows type - 4) 0
                 in Inr (matrixFromMatrixExtractColumns [0 ..< getCols type] (parameters ! 0)
                           paramColumnTypeId columnTypeId needsSwizzle swizzle [] b)
               else
                 let paramComponentTypeId =
                       getSpirvTypeData
                         ((getSpirvType parameterType)\<lparr>primarySize := 1, secondarySize := 1\<rparr>)
                 in matrixFromMatrixColumns [0 ..< getCols type] type parameterType
                      paramComponentTypeId columnTypeId (parameters ! 0) [] b)
        in (case columnsResult of
              Inl err \<Rightarrow> Inl err
            | Inr (columnIds, b1) \<Rightarrow>
                (case getNewId b1 of (result, b2) \<Rightarrow>
                   Inr (result,
                        writeBlock (OpCompositeConstruct typeId result columnIds) b2))))"

subsection \<open>Function calls and atomic built-ins\<close>

datatype TQualifier =
    EvqTemporary | EvqGlobal | EvqConst | EvqIn | EvqOut | EvqInOut | EvqUniform | EvqShared

text \<open>
  What \<^verbatim>\<open>createFunctionCall\<close> reads of the parameter \<^verbatim>\<open>function->getParam(paramIndex)\<close>:
  \<^verbatim>\<open>IsOpaqueType(paramType.getBasicType())\<close>, \<^verbatim>\<open>paramType.getQualifier()\<close> and
  \<^verbatim>\<open>mBuilder.getTypeData(paramType, EbsUnspecified).id\<close>.
\<close>

record TFunctionParam =
  paramIsOpaqueType :: bool
  paramQualifier :: TQualifier
  paramTypeId :: IdRef

text \<open>
  The element \<^verbatim>\<open>mNodeData[mNodeData.size() - parameterCount + paramIndex]\<close>; the index is
  computed in \<^verbatim>\<open>size_t\<close>, and is outside of the vector when there are fewer entries
  than parameters.
\<close>

definition paramSlot :: "NodeData list \<Rightarrow> nat \<Rightarrow> nat \<Rightarrow> error + nat" where
  "paramSlot nodeData parameterCount paramIndex =
     (if parameterCount \<le> length nodeData \<and> paramIndex < parameterCount
      then Inr (length nodeData - parameterCount + paramIndex)
      else Inl (IndexOutOfRange ''mNodeData[mNodeData.size() - parameterCount + paramIndex]''))"

text \<open>
  The body of the first loop of \<^verbatim>\<open>createFunctionCall\<close> for one parameter: the value
  passed to the function, the temporary variable and its type (invalid when there is none),
  and the node data of the argument after it.
\<close>

definition functionCallParameter ::
  "TFunctionParam \<Rightarrow> NodeData \<Rightarrow> SPIRVBuilder \<Rightarrow>
   error + (IdRef \<times> IdRef \<times> IdRef \<times> NodeData \<times> SPIRVBuilder)" where
  "functionCallParameter fp param b =
     (if paramIsOpaqueType fp \<or> paramQualifier fp = EvqConst \<or>
         IsAccessChainUnindexedLValue param
      then (case accessChainLoad param b of
              Inl err \<Rightarrow> Inl err
            | Inr (paramValue, param1, b1) \<Rightarrow>
                Inr (paramValue, InvalidId, InvalidId, param1, b1))
      else if \<not> (paramQualifier fp = EvqIn \<or> paramQualifier fp = EvqOut \<or>
                  paramQualifier fp = EvqInOut)
      then Inl (AssertionFailure
                  ''paramQualifier == EvqIn || paramQualifier == EvqOut || paramQualifier == EvqInOut'')
      else
        (case declareVariable (paramTypeId fp) StorageClassFunction b of
           (tempVarId, b1) \<Rightarrow>
             if paramQualifier fp = EvqIn \<or> paramQualifier fp = EvqInOut
             then (case accessChainLoad param b1 of
                     Inl err \<Rightarrow> Inl err
                   | Inr (paramValue, param1, b2) \<Rightarrow>
                       Inr (tempVarId, tempVarId, paramTypeId fp, param1,
                            writeBlock (OpStore tempVarId paramValue) b2))
             else Inr (tempVarId, tempVarId, paramTypeId fp, param, b1)))"

text \<open>The body of the second loop for one parameter: the copy back after the call.\<close>

definition functionCallCopyBack ::
  "TQualifier \<Rightarrow> IdRef \<Rightarrow> IdRef \<Rightarrow> NodeData \<Rightarrow> SPIRVBuilder \<Rightarrow>
   error + (NodeData \<times> SPIRVBuilder)" where
  "functionCallCopyBack qualifier tempVarId tempVarTypeId param b =
     (if \<not> valid tempVarId then Inr (param, b)
      else if qualifier = EvqIn then Inr (param, b)
      else
        (case accessChainLoad
                (nodeDataInitLValue tempVarId tempVarTypeId StorageClassFunction EbsUnspecified)
                b of
           Inl err \<Rightarrow> Inl err
         | Inr (tempVarValue, tempVarData, b1) \<Rightarrow> accessChainStore param tempVarValue b1))"

text \<open>The first loop, over the parameter indices.\<close>

fun functionCallParameters ::
  "nat list \<Rightarrow> TFunctionParam list \<Rightarrow> nat \<Rightarrow> IdRef list \<Rightarrow> IdRef list \<Rightarrow> IdRef list \<Rightarrow>
   NodeData list \<Rightarrow> SPIRVBuilder \<Rightarrow>
   error + (IdRef list \<times> IdRef list \<times> IdRef list \<times> NodeData list \<times> SPIRVBuilder)" where
  "functionCallParameters [] fps parameterCount parameters tempVarIds tempVarTypeIds
     nodeData b = Inr (parameters, tempVarIds, tempVarTypeIds, nodeData, b)"
| "functionCallParameters (paramIndex # rest) fps parameterCount parameters tempVarIds
     tempVarTypeIds nodeData b =
     (if \<not> paramIndex < length fps then Inl (IndexOutOfRange ''function->getParam(paramIndex)'')
      else case paramSlot nodeData parameterCount paramIndex of
        Inl err \<Rightarrow> Inl err
      | Inr slot \<Rightarrow>
          (case functionCallParameter (fps ! paramIndex) (nodeData ! slot) b of
             Inl err \<Rightarrow> Inl err
           | Inr (paramValue, tempVarId, tempVarTypeId, param1, b1) \<Rightarrow>
               functionCallParameters rest fps parameterCount (parameters @ [paramValue])
                 (if valid tempVarId then tempVarIds[paramIndex := tempVarId] else tempVarIds)
                 (if valid tempVarId then tempVarTypeIds[paramIndex := tempVarTypeId]
                  else tempVarTypeIds)
                 (nodeData[slot := param1]) b1))"

text \<open>The second loop, over the parameter indices.\<close>

fun functionCallCopyBacks ::
  "nat list \<Rightarrow> TFunctionParam list \<Rightarrow> nat \<Rightarrow> IdRef list \<Rightarrow> IdRef list \<Rightarrow>
   NodeData list \<Rightarrow> SPIRVBuilder \<Rightarrow> error + (NodeData list \<times> SPIRVBuilder)" where
  "functionCallCopyBacks [] fps parameterCount tempVarIds tempVarTypeIds nodeData b =
     Inr (nodeData, b)"
| "functionCallCopyBacks (paramIndex # rest) fps parameterCount tempVarIds tempVarTypeIds
     nodeData b =
     (if \<not> valid (tempVarIds ! paramIndex)
      then functionCallCopyBacks rest fps parameterCount tempVarIds tempVarTypeIds nodeData b
      else if \<not> paramIndex < length fps
      then Inl (IndexOutOfRange ''function->getParam(paramIndex)'')
      else case paramSlot nodeData parameterCount paramIndex of
        Inl err \<Rightarrow> Inl err
      | Inr slot \<Rightarrow>
          (case functionCallCopyBack (paramQualifier (fps ! paramIndex))
                  (tempVarIds ! paramIndex) (tempVarTypeIds ! paramIndex) (nodeData ! slot) b of
             Inl err \<Rightarrow> Inl err
           | Inr (param1, b1) \<Rightarrow>
               functionCallCopyBacks rest fps parameterCount tempVarIds tempVarTypeIds
                 (nodeData[slot := param1]) b1))"

text \<open>
  The state of the traverser.  The keys of \<^verbatim>\<open>mSymbolIdMap\<close> are the addresses of the
  symbols, here numbers.
\<close>

record OutputSPIRVTraverser =
  mBuilder :: SPIRVBuilder
  mNodeData :: "NodeData list"
  mSymbolIdMap :: "nat \<Rightarrow> IdRef option"
  mIsSymbolBeingDeclared :: bool

text \<open>
  What \<^verbatim>\<open>createFunctionCall\<close> reads of its aggregate node: the function (the key of its
  symbol and its parameters) and \<^verbatim>\<open>node->getChildCount()\<close>.
\<close>

record TIntermFunctionCall =
  getFunction :: nat
  getParams :: "TFunctionParam list"
  getChildCount :: nat

definition createFunctionCall ::
  "TIntermFunctionCall \<Rightarrow> IdRef \<Rightarrow> OutputSPIRVTraverser \<Rightarrow>
   error + (IdRef \<times> OutputSPIRVTraverser)" where
  "createFunctionCall node resultTypeId t =
     (case mSymbolIdMap t (getFunction node) of
        None \<Rightarrow> Inl (AssertionFailure ''mSymbolIdMap.count(function) > 0'')
      | Some functionId \<Rightarrow>
          let parameterCount = getChildCount node
          in (case functionCallParameters [0 ..< parameterCount] (getParams node)
                     parameterCount [] (replicate parameterCount InvalidId)
                     (replicate parameterCount InvalidId) (mNodeData t) (mBuilder t) of
                Inl err \<Rightarrow> Inl err
              | Inr (parameters, tempVarIds, tempVarTypeIds, nodeData1, b1) \<Rightarrow>
                  (case getNewId b1 of (result, b2) \<Rightarrow>
                     let b3 = writeBlock
                                (OpFunctionCall resultTypeId result functionId parameters) b2
                     in (case functionCallCopyBacks [0 ..< parameterCount] (getParams node)
                                parameterCount tempVarIds tempVarTypeIds nodeData1 b3 of
                           Inl err \<Rightarrow> Inl err
                         | Inr (nodeData2, b4) \<Rightarrow>
                             Inr (result, t\<lparr>mBuilder := b4, mNodeData := nodeData2\<rparr>)))))"

text \<open>
  The two loops of \<^verbatim>\<open>createFunctionCall\<close> said argument by argument, for the statement of
  what the call does with every argument.  \<open>passArguments\<close> runs the body of the first loop
  on each parameter with its argument, in their order, and lists for each the value passed,
  the temporary variable, its type and the node data of the argument after it;
  \<open>copyBackArguments\<close> runs the body of the second loop on each qualifier with the temporary
  variable, its type and the node data of the argument, and lists the node data after it.
\<close>

fun passArguments ::
  "(TFunctionParam \<times> NodeData) list \<Rightarrow> SPIRVBuilder \<Rightarrow>
   error + ((IdRef \<times> IdRef \<times> IdRef \<times> NodeData) list \<times> SPIRVBuilder)" where
  "passArguments [] b = Inr ([], b)"
| "passArguments ((fp, param) # rest) b =
     (case functionCallParameter fp param b of
        Inl err \<Rightarrow> Inl err
      | Inr (paramValue, tempVarId, tempVarTypeId, param1, b1) \<Rightarrow>
          (case passArguments rest b1 of
             Inl err \<Rightarrow> Inl err
           | Inr (passed, b2) \<Rightarrow>
               Inr ((paramValue, tempVarId, tempVarTypeId, param1) # passed, b2)))"

fun copyBackArguments ::
  "(TQualifier \<times> IdRef \<times> IdRef \<times> NodeData) list \<Rightarrow> SPIRVBuilder \<Rightarrow>
   error + (NodeData list \<times> SPIRVBuilder)" where
  "copyBackArguments [] b = Inr ([], b)"
| "copyBackArguments ((qualifier, tempVarId, tempVarTypeId, param) # rest) b =
     (case functionCallCopyBack qualifier tempVarId tempVarTypeId param b of
        Inl err \<Rightarrow> Inl err
      | Inr (param1, b1) \<Rightarrow>
          (case copyBackArguments rest b1 of
             Inl err \<Rightarrow> Inl err
           | Inr (params, b2) \<Rightarrow> Inr (param1 # params, b2)))"

datatype TOperator =
    EOpConstruct | EOpCallFunctionInAST
  | EOpAtomicAdd | EOpAtomicMin | EOpAtomicMax | EOpAtomicAnd | EOpAtomicOr | EOpAtomicXor
  | EOpAtomicExchange | EOpAtomicCompSwap







subsection \<open>Visiting swizzle nodes\<close>

datatype Visit = PreVisit | InVisit | PostVisit

text \<open>
  What \<^verbatim>\<open>visitSwizzle\<close> reads of its node: \<^verbatim>\<open>hasConstantValue()\<close>, the nominal size
  of the type of the operand, the swizzle offsets, and for each block storage the id that
  \<^verbatim>\<open>mBuilder.getTypeData(node->getType(), blockStorage).id\<close> gives.
\<close>

record TIntermSwizzle =
  hasConstantValue :: bool
  operandNominalSize :: nat
  getSwizzleOffsets :: "int list"
  swizzleTypeData :: "TLayoutBlockStorage \<Rightarrow> IdRef"

text \<open>
  The loop that computes \<^verbatim>\<open>isIdentity\<close>.  An offset is compared after its conversion to
  \<^verbatim>\<open>size_t\<close>, which takes a negative offset beyond every index.
\<close>

definition isIdentitySwizzle :: "int list \<Rightarrow> nat \<Rightarrow> bool" where
  "isIdentitySwizzle swizzle vectorComponentCount =
     (length swizzle = vectorComponentCount \<and>
      list_all (\<lambda>index. swizzle ! index = int index) [0 ..< length swizzle])"

definition visitSwizzle ::
  "Visit \<Rightarrow> TIntermSwizzle \<Rightarrow> OutputSPIRVTraverser \<Rightarrow> error + (bool \<times> OutputSPIRVTraverser)" where
  "visitSwizzle visit node t =
     (if hasConstantValue node then Inl (AssertionFailure ''!node->hasConstantValue()'')
      else if visit = PreVisit then Inr (True, t)
      else if visit \<noteq> PostVisit then Inl (AssertionFailure ''visit == PostVisit'')
      else if \<not> 1 \<le> length (mNodeData t) then Inl (AssertionFailure ''mNodeData.size() >= 1'')
      else
        let vectorComponentCount = operandNominalSize node mod 256;
            swizzle = getSwizzleOffsets node
        in if isIdentitySwizzle swizzle vectorComponentCount then Inr (True, t)
           else
             let typeId = swizzleTypeData node
                            (baseBlockStorage (accessChain (last (mNodeData t))))
             in (case accessChainPushSwizzle (last (mNodeData t)) swizzle typeId
                        vectorComponentCount of
                   Inl err \<Rightarrow> Inl err
                 | Inr d \<Rightarrow> Inr (True, t\<lparr>mNodeData := butlast (mNodeData t) @ [d]\<rparr>)))"

subsection \<open>The traversal and the size of the node data stack\<close>

text \<open>
  The nodes of the tree that the traversal below covers: constants, \<^verbatim>\<open>return\<close> with or
  without an expression, blocks, and function definitions with their prototype and body.
\<close>

datatype TIntermNode =
    TIntermConstantUnion
  | TIntermBranch "TIntermNode option"
  | TIntermBlock "TIntermNode list"
  | TIntermFunctionPrototype
  | TIntermFunctionDefinition TIntermNode TIntermNode

text \<open>
  The visit functions of these nodes, restricted to what they do to \<^verbatim>\<open>mNodeData\<close>, of which
  only the size is kept.  \<^verbatim>\<open>visitConstantUnion\<close> does \<^verbatim>\<open>mNodeData.emplace_back()\<close>.
  \<^verbatim>\<open>visitBranch\<close> does it before the children; after them, \<^verbatim>\<open>EOpReturn\<close> with an
  expression loads and pops the entry of the expression.  \<^verbatim>\<open>visitFunctionPrototype\<close> and
  \<^verbatim>\<open>visitFunctionDefinition\<close> do not touch \<^verbatim>\<open>mNodeData\<close>.  \<^verbatim>\<open>pop_back()\<close> is defined
  only on a vector that is not empty.
\<close>

definition visitConstantUnion :: "nat \<Rightarrow> nat" where
  "visitConstantUnion nodeDataSize = Suc nodeDataSize"

definition visitBranch :: "Visit \<Rightarrow> bool \<Rightarrow> nat \<Rightarrow> error + (bool \<times> nat)" where
  "visitBranch visit hasExpression nodeDataSize =
     (if visit = PreVisit then Inr (True, Suc nodeDataSize)
      else if visit = InVisit then Inl (AssertionFailure ''visit != InVisit'')
      else if hasExpression
      then (if \<not> 1 \<le> nodeDataSize then Inl (AssertionFailure ''mNodeData.size() >= 1'')
            else Inr (True, nodeDataSize - 1))
      else Inr (True, nodeDataSize))"

definition visitBlock :: "Visit \<Rightarrow> nat \<Rightarrow> nat \<Rightarrow> nat \<Rightarrow> error + (bool \<times> nat)" where
  "visitBlock visit currentTraversalDepth childCount nodeDataSize =
     (if currentTraversalDepth = 0 then Inr (True, nodeDataSize)
      else if visit = PreVisit then Inr (0 < childCount, nodeDataSize)
      else if nodeDataSize = 0 then Inl (IndexOutOfRange ''mNodeData.pop_back()'')
      else Inr (True, nodeDataSize - 1))"

text \<open>
  Modelled from the spec: the driver of the traversal (TIntermTraverser, IntermTraverse.cpp),
  which is not part of the sources at hand.  Section 2: the tree is traversed with pre, in and
  post callbacks; the traverser is constructed with the three of them enabled.  A node is
  visited with \<open>PreVisit\<close> before its children, with \<open>InVisit\<close> between two children and
  with \<open>PostVisit\<close> after the last; a visit that returns false ends the traversal of the
  node.  The depth of the root is zero and a child is one deeper than its parent.
\<close>

fun traverse :: "nat \<Rightarrow> TIntermNode \<Rightarrow> nat \<Rightarrow> error + nat"
  and traverseSequence :: "nat \<Rightarrow> nat \<Rightarrow> TIntermNode list \<Rightarrow> nat \<Rightarrow> error + nat" where
  "traverse depth TIntermConstantUnion nodeDataSize = Inr (visitConstantUnion nodeDataSize)"
| "traverse depth TIntermFunctionPrototype nodeDataSize = Inr nodeDataSize"
| "traverse depth (TIntermBranch None) nodeDataSize =
     (case visitBranch PreVisit False nodeDataSize of
        Inl err \<Rightarrow> Inl err
      | Inr (visit, size1) \<Rightarrow>
          if \<not> visit then Inr size1
          else (case visitBranch PostVisit False size1 of
                  Inl err \<Rightarrow> Inl err
                | Inr (visit2, size2) \<Rightarrow> Inr size2))"
| "traverse depth (TIntermBranch (Some expression)) nodeDataSize =
     (case visitBranch PreVisit True nodeDataSize of
        Inl err \<Rightarrow> Inl err
      | Inr (visit, size1) \<Rightarrow>
          if \<not> visit then Inr size1
          else (case traverse (Suc depth) expression size1 of
                  Inl err \<Rightarrow> Inl err
                | Inr size2 \<Rightarrow>
                    (case visitBranch PostVisit True size2 of
                       Inl err \<Rightarrow> Inl err
                     | Inr (visit3, size3) \<Rightarrow> Inr size3)))"
| "traverse depth (TIntermFunctionDefinition prototype body) nodeDataSize =
     (case traverse (Suc depth) prototype nodeDataSize of
        Inl err \<Rightarrow> Inl err
      | Inr size1 \<Rightarrow> traverse (Suc depth) body size1)"
| "traverse depth (TIntermBlock statements) nodeDataSize =
     (case visitBlock PreVisit depth (length statements) nodeDataSize of
        Inl err \<Rightarrow> Inl err
      | Inr (visit, size1) \<Rightarrow>
          if \<not> visit then Inr size1
          else traverseSequence depth (length statements) statements size1)"
| "traverseSequence depth childCount [] nodeDataSize =
     (case visitBlock PostVisit depth childCount nodeDataSize of
        Inl err \<Rightarrow> Inl err
      | Inr (visit, size1) \<Rightarrow> Inr size1)"
| "traverseSequence depth childCount (child # rest) nodeDataSize =
     (case traverse (Suc depth) child nodeDataSize of
        Inl err \<Rightarrow> Inl err
      | Inr size1 \<Rightarrow>
          if rest = [] then traverseSequence depth childCount [] size1
          else (case visitBlock InVisit depth childCount size1 of
                  Inl err \<Rightarrow> Inl err
                | Inr (visit, size2) \<Rightarrow>
                    if \<not> visit then Inr size2
                    else traverseSequence depth childCount rest size2))"

text \<open>
  \<^verbatim>\<open>OutputSPIRV\<close>, for the node data: the traverser starts with no entry, traverses the
  root, and its destructor asserts that no entry is left.
\<close>

definition OutputSPIRV :: "TIntermNode \<Rightarrow> error + unit" where
  "OutputSPIRV root =
     (case traverse 0 root 0 of
        Inl err \<Rightarrow> Inl err
      | Inr nodeDataSize \<Rightarrow>
          if nodeDataSize \<noteq> 0 then Inl (AssertionFailure ''mNodeData.empty()'')
          else Inr ())"

subsection \<open>The meaning of the instructions of a swizzled store\<close>

text \<open>
  A machine on which a block runs: the number of components of each vector type, the values
  of the result ids and the contents of the memory objects, a value or a content being a
  type id with the list of the components.  The three instructions are as the SPIR-V
  specification defines them, their rules on types included.  \<open>OpLoad\<close> gives its result
  the contents of the pointer, and its Result Type is the type pointed to.
  \<open>OpVectorShuffle\<close> selects by each component literal from the components of the two
  vectors numbered consecutively; the two operands are of vector types, the number of
  components of its Result Type is the number of the component literals, and a component
  literal outside of the two vectors (as is \<open>FFFFFFFF\<close>, which selects no component) gives
  no result.  \<open>OpStore\<close> writes the object to the pointer, and the
  type of the object is the type pointed to.  An instruction that breaks a rule has no
  result.  The types of the components themselves are not modelled.
\<close>

record 'a Machine =
  typeComponentCount :: "IdRef \<Rightarrow> nat option"
  resultValues :: "IdRef \<Rightarrow> (IdRef \<times> 'a list) option"
  memory :: "IdRef \<Rightarrow> (IdRef \<times> 'a list) option"

fun execute :: "Instruction \<Rightarrow> 'a Machine \<Rightarrow> 'a Machine option" where
  "execute (OpLoad resultType result pointer) m =
     (case memory m pointer of
        None \<Rightarrow> None
      | Some (pointeeType, v) \<Rightarrow>
          if resultType = pointeeType
          then Some (m\<lparr>resultValues := (resultValues m)(result \<mapsto> (resultType, v))\<rparr>)
          else None)"
| "execute (OpVectorShuffle resultType result vector1 vector2 components) m =
     (case resultValues m vector1 of
        None \<Rightarrow> None
      | Some (type1, v1) \<Rightarrow>
          (case resultValues m vector2 of
             None \<Rightarrow> None
           | Some (type2, v2) \<Rightarrow>
               if typeComponentCount m type1 = Some (length v1) \<and>
                  typeComponentCount m type2 = Some (length v2) \<and>
                  typeComponentCount m resultType = Some (length components) \<and>
                  list_all (\<lambda>c. c < length v1 + length v2) components
               then Some (m\<lparr>resultValues := (resultValues m)
                              (result \<mapsto> (resultType, map (\<lambda>c. (v1 @ v2) ! c) components))\<rparr>)
               else None))"
| "execute (OpStore pointer object) m =
     (case memory m pointer of
        None \<Rightarrow> None
      | Some (pointeeType, old) \<Rightarrow>
          (case resultValues m object of
             None \<Rightarrow> None
           | Some (objectType, v) \<Rightarrow>
               if objectType = pointeeType
               then Some (m\<lparr>memory := (memory m)(pointer \<mapsto> (pointeeType, v))\<rparr>)
               else None))"
| "execute _ m = None"

fun executeBlock :: "Instruction list \<Rightarrow> 'a Machine \<Rightarrow> 'a Machine option" where
  "executeBlock [] m = Some m"
| "executeBlock (i # rest) m =
     (case execute i m of None \<Rightarrow> None | Some m1 \<Rightarrow> executeBlock rest m1)"

subsection \<open>Inputs of the examples\<close>

text \<open>A builder inside of a function, with ten ids handed out and nothing written.\<close>

definition exampleBuilder :: SPIRVBuilder where
  "exampleBuilder =
     \<lparr>mNextId = 10, mSpirvCurrentFunctionBlock = [], mSpirvTypeAndConstantDecls = [],
      mSpirvVariableDecls = [], mLocalVariables = []\<rparr>"

text \<open>
  The access chain of \<open>r.xyz[i]\<close> on an rvalue \<open>r\<close> with id 1 of a four-component vector
  type with id 2: the swizzle is pushed with the type id 3, then the dynamic component, the
  index having id 4 and the result type id 5.
\<close>

definition rvalueSwizzleDynamic :: "error + (NodeData \<times> SPIRVBuilder)" where
  "rvalueSwizzleDynamic =
     (case accessChainPushSwizzle (nodeDataInitRValue (NewId 1) (NewId 2)) [0, 1, 2]
             (NewId 3) 4 of
        Inl err \<Rightarrow> Inl err
      | Inr d \<Rightarrow> accessChainPushDynamicComponent d (NewId 4) (NewId 5) exampleBuilder)"

definition rvalueSwizzleDynamicData :: NodeData where
  "rvalueSwizzleDynamicData =
     \<lparr>baseId = NewId 1, idList = [],
      accessChain = emptyAccessChain
        \<lparr>swizzles := [0, 1, 2], dynamicComponent := NewId 4, preSwizzleTypeId := NewId 2,
         postSwizzleTypeId := NewId 3, postDynamicComponentTypeId := NewId 5,
         swizzledVectorComponentCount := 4\<rparr>\<rparr>"

text \<open>
  Four access chains to load from: the rvalue with id 1; \<open>r[3][5].xy\<close> on this rvalue;
  \<open>r[3][i]\<close> on it with the index \<open>i\<close> of id 7; and \<open>v[3][i]\<close> on a variable \<open>v\<close> with
  id 1 of the storage class Private.
\<close>

definition rvalueUnindexed :: NodeData where
  "rvalueUnindexed = nodeDataInitRValue (NewId 1) (NewId 2)"

definition rvalueLiteralSwizzle :: NodeData where
  "rvalueLiteralSwizzle =
     (accessChainPushLiteral (accessChainPushLiteral rvalueUnindexed 3 (NewId 4)) 5 (NewId 6))
       \<lparr>accessChain := emptyAccessChain
          \<lparr>preSwizzleTypeId := NewId 6, swizzles := [0, 1], postSwizzleTypeId := NewId 8,
           swizzledVectorComponentCount := 4\<rparr>\<rparr>"

definition rvalueDynamicIndex :: NodeData where
  "rvalueDynamicIndex =
     accessChainPush (accessChainPushLiteral rvalueUnindexed 3 (NewId 4)) (NewId 7) (NewId 6)"

definition lvalueDynamicIndex :: NodeData where
  "lvalueDynamicIndex =
     accessChainPush
       (accessChainPushLiteral
          (nodeDataInitLValue (NewId 1) (NewId 2) StorageClassPrivate EbsUnspecified)
          3 (NewId 4))
       (NewId 7) (NewId 6)"

text \<open>
  The access chain of \<open>v.zx\<close> on a variable \<open>v\<close> with id 1 of the storage class Private
  and of the type \<open>vec4\<close> with id 2, the type \<open>vec2\<close> of the swizzle having id 3; and a
  machine in which \<open>v\<close> holds \<open>(a, b, c, d)\<close> and the id 9 is the \<open>vec2\<close> value \<open>(p, q)\<close>.
\<close>

definition lvalueSwizzleZX :: NodeData where
  "lvalueSwizzleZX =
     \<lparr>baseId = NewId 1, idList = [],
      accessChain = emptyAccessChain
        \<lparr>storageClass := StorageClassPrivate, swizzles := [2, 0], preSwizzleTypeId := NewId 2,
         postSwizzleTypeId := NewId 3, swizzledVectorComponentCount := 4\<rparr>\<rparr>"

definition exampleMachine :: "string Machine" where
  "exampleMachine =
     \<lparr>typeComponentCount = [NewId 2 \<mapsto> 4, NewId 3 \<mapsto> 2],
      resultValues = [NewId 9 \<mapsto> (NewId 3, [''p'', ''q''])],
      memory = [NewId 1 \<mapsto> (NewId 2, [''a'', ''b'', ''c'', ''d''])]\<rparr>"

text \<open>
  The types \<open>mat3x2\<close> (three columns of two rows), \<open>mat3\<close> and \<open>mat2\<close> of floats.
\<close>

definition mat3x2 :: TType where
  "mat3x2 = \<lparr>getBasicType = EbtFloat, getCols = 3, getRows = 2,
     getSpirvType = \<lparr>spirvBasicType = EbtFloat, primarySize = 3, secondarySize = 2\<rparr>\<rparr>"

definition mat3 :: TType where
  "mat3 = \<lparr>getBasicType = EbtFloat, getCols = 3, getRows = 3,
     getSpirvType = \<lparr>spirvBasicType = EbtFloat, primarySize = 3, secondarySize = 3\<rparr>\<rparr>"

definition mat2 :: TType where
  "mat2 = \<lparr>getBasicType = EbtFloat, getCols = 2, getRows = 2,
     getSpirvType = \<lparr>spirvBasicType = EbtFloat, primarySize = 2, secondarySize = 2\<rparr>\<rparr>"

text \<open>
  The swizzle \<open>v[3][i].xyzw\<close> with a four-component operand, while the entry of the operand
  is on top of the node data.
\<close>

definition exampleSwizzle :: TIntermSwizzle where
  "exampleSwizzle = \<lparr>hasConstantValue = False, operandNominalSize = 4,
      getSwizzleOffsets = [0, 1, 2, 3], swizzleTypeData = (\<lambda>s. NewId 3)\<rparr>"

definition exampleTraverser :: OutputSPIRVTraverser where
  "exampleTraverser = \<lparr>mBuilder = exampleBuilder, mNodeData = [lvalueDynamicIndex],
      mSymbolIdMap = Map.empty, mIsSymbolBeingDeclared = False\<rparr>"




text \<open>
  Two calls of a function with id 8 and one parameter: \<open>f(r)\<close> with an \<open>in\<close> parameter
  and the rvalue \<open>r\<close> of id 1, and \<open>g(v[3][i])\<close> with an \<open>out\<close> parameter.
\<close>

definition inParam :: TFunctionParam where
  "inParam = \<lparr>paramIsOpaqueType = False, paramQualifier = EvqIn, paramTypeId = NewId 2\<rparr>"

definition outParam :: TFunctionParam where
  "outParam = \<lparr>paramIsOpaqueType = False, paramQualifier = EvqOut, paramTypeId = NewId 6\<rparr>"

definition callOneIn :: TIntermFunctionCall where
  "callOneIn = \<lparr>getFunction = 0, getParams = [inParam], getChildCount = 1\<rparr>"

definition callOneOut :: TIntermFunctionCall where
  "callOneOut = \<lparr>getFunction = 0, getParams = [outParam], getChildCount = 1\<rparr>"

definition traverserOneIn :: OutputSPIRVTraverser where
  "traverserOneIn =
     \<lparr>mBuilder = exampleBuilder, mNodeData = [emptyNodeData, rvalueUnindexed],
      mSymbolIdMap = [0 \<mapsto> NewId 8], mIsSymbolBeingDeclared = False\<rparr>"

definition traverserOneOut :: OutputSPIRVTraverser where
  "traverserOneOut =
     \<lparr>mBuilder = exampleBuilder, mNodeData = [emptyNodeData, lvalueDynamicIndex],
      mSymbolIdMap = [0 \<mapsto> NewId 8], mIsSymbolBeingDeclared = False\<rparr>"

text \<open>
  The call \<open>h(r, v[3][i])\<close> of a function with id 8 and two parameters, the first \<open>in\<close>
  and the second \<open>out\<close>.
\<close>

definition callInOut :: TIntermFunctionCall where
  "callInOut = \<lparr>getFunction = 0, getParams = [inParam, outParam], getChildCount = 2\<rparr>"

definition traverserInOut :: OutputSPIRVTraverser where
  "traverserInOut =
     \<lparr>mBuilder = exampleBuilder,
      mNodeData = [emptyNodeData, rvalueUnindexed, lvalueDynamicIndex],
      mSymbolIdMap = [0 \<mapsto> NewId 8], mIsSymbolBeingDeclared = False\<rparr>"

text \<open>
  The tree of \<open>void main() { { return; } }\<close>, and that of
  \<open>void main() { 1; return 1; }\<close>, which has no block inside of a block.
\<close>

definition mainWithNestedBlock :: TIntermNode where
  "mainWithNestedBlock =
     TIntermBlock
       [TIntermFunctionDefinition TIntermFunctionPrototype
          (TIntermBlock [TIntermBlock [TIntermBranch None]])]"

definition mainWithoutNestedBlock :: TIntermNode where
  "mainWithoutNestedBlock =
     TIntermBlock
       [TIntermFunctionDefinition TIntermFunctionPrototype
          (TIntermBlock [TIntermConstantUnion, TIntermBranch (Some TIntermConstantUnion)])]"

section \<open>Properties\<close>

subsection \<open>Loading through an access chain\<close>

lemma literalsOf_all_literal:
  "list_all (\<lambda>e. \<not> valid (idPart e)) es \<Longrightarrow> literalsOf es = Inr (map literalPart es)"
  by (induction es) simp_all

lemmas example_defs =
  exampleBuilder_def nodeDataInitRValue_def nodeDataInitLValue_def emptyNodeData_def
  emptyAccessChain_def accessChainPush_def accessChainPushLiteral_def fromId_def
  fromLiteral_def toUint32_def valid_def IsAccessChainRValue_def

lemmas load_defs =
  accessChainLoad_def accessChainLoadBase_def accessChainLoadSwizzle_def
  accessChainLoadDynamicComponent_def accessChainCollapse_def makeAccessChainLiteralList_def
  makeAccessChainIdList_def declareVariable_def getNewId_def writeBlock_def
  getTypePointerId_def getUintConstant_def Let_def

lemma accessChainCollapse_instructions:
  assumes "\<not> IsAccessChainRValue (accessChain d)"
  shows "accessChainCollapse d b =
     (if valid (accessChainId (accessChain d)) then Inr (accessChainId (accessChain d), d, b)
      else if idList d = []
      then Inr (baseId d, d\<lparr>accessChain := (accessChain d)\<lparr>accessChainId := baseId d\<rparr>\<rparr>, b)
      else Inr (NewId (mNextId b),
                d\<lparr>accessChain := (accessChain d)\<lparr>accessChainId := NewId (mNextId b)\<rparr>\<rparr>,
                b\<lparr>mNextId := Suc (mNextId b),
                  mSpirvCurrentFunctionBlock := mSpirvCurrentFunctionBlock b @
                    [OpAccessChain
                       (TypePointerId (preSwizzleTypeId (accessChain d))
                          (storageClass (accessChain d)))
                       (NewId (mNextId b)) (baseId d) (makeAccessChainIdList d)]\<rparr>))"
  using assms
  by (simp add: accessChainCollapse_def IsAccessChainRValue_def Let_def getNewId_def
      writeBlock_def getTypePointerId_def)

text \<open>
  The load decision table on the access chains that pass the assertions of
  \<open>accessChainLoad\<close>: the pending swizzle does not have exactly one component, and a
  swizzle and a dynamic component are not both pending.  An rvalue with no indices gives
  \<open>baseId\<close> and leaves the node data as they are.  An rvalue whose indices are all literal
  writes exactly one \<open>OpCompositeExtract\<close> of \<open>baseId\<close> with the literals of the indices in
  their order.  An rvalue with an index that is not literal declares a fresh variable of the
  Function storage class, writes \<open>OpStore\<close> of \<open>baseId\<close> into it, makes the node data an
  lvalue of the Function storage class on that variable, and loads as from an lvalue.  An
  lvalue takes the pointer of \<open>accessChainCollapse\<close>, which writes one \<open>OpAccessChain\<close>
  when there are indices and no pointer from an earlier collapse, and writes \<open>OpLoad\<close> from
  it.  After the value so loaded, a pending swizzle adds one \<open>OpVectorShuffle\<close> of the value
  with itself, a pending dynamic component adds one \<open>OpVectorExtractDynamic\<close>, and in both
  cases the result is the fresh id of that instruction.
\<close>

theorem accessChainLoad_decision_table:
  fixes d :: NodeData and b :: SPIRVBuilder
  defines "ac \<equiv> accessChain d"
  defines "pending \<equiv> \<lambda>loaded n.
     if swizzles ac \<noteq> []
     then [OpVectorShuffle (postSwizzleTypeId ac) (NewId n) loaded loaded (swizzles ac)]
     else if valid (dynamicComponent ac)
     then [OpVectorExtractDynamic (postDynamicComponentTypeId ac) (NewId n) loaded
             (dynamicComponent ac)]
     else []"
  defines "afterwards \<equiv> \<lambda>loaded dd bb.
     Inr (if pending loaded (mNextId bb) = [] then loaded else NewId (mNextId bb), dd,
          bb\<lparr>mNextId := mNextId bb + length (pending loaded (mNextId bb)),
             mSpirvCurrentFunctionBlock :=
               mSpirvCurrentFunctionBlock bb @ pending loaded (mNextId bb)\<rparr>)"
  assumes swz: "length (swizzles ac) \<noteq> 1"
    and dyn: "valid (dynamicComponent ac) \<longrightarrow> swizzles ac = []"
  shows
    "(IsAccessChainRValue ac \<and> idList d = [] \<longrightarrow>
        accessChainLoad d b = afterwards (baseId d) d b)
     \<and> (IsAccessChainRValue ac \<and> idList d \<noteq> [] \<and> areAllIndicesLiteral ac \<and>
          list_all (\<lambda>e. \<not> valid (idPart e)) (idList d) \<longrightarrow>
        accessChainLoad d b =
          afterwards (NewId (mNextId b)) d
            (b\<lparr>mNextId := Suc (mNextId b),
               mSpirvCurrentFunctionBlock := mSpirvCurrentFunctionBlock b @
                 [OpCompositeExtract (preSwizzleTypeId ac) (NewId (mNextId b)) (baseId d)
                    (map literalPart (idList d))]\<rparr>))
     \<and> (IsAccessChainRValue ac \<and> idList d \<noteq> [] \<and> \<not> areAllIndicesLiteral ac \<longrightarrow>
        accessChainLoad d b =
          accessChainLoad
            (d\<lparr>baseId := NewId (mNextId b),
               accessChain := ac\<lparr>storageClass := StorageClassFunction\<rparr>\<rparr>)
            (b\<lparr>mNextId := Suc (mNextId b),
               mLocalVariables := mLocalVariables b @
                 [OpVariable (TypePointerId (preSwizzleTypeId ac) StorageClassFunction)
                    (NewId (mNextId b)) StorageClassFunction],
               mSpirvCurrentFunctionBlock := mSpirvCurrentFunctionBlock b @
                 [OpStore (NewId (mNextId b)) (baseId d)]\<rparr>))
     \<and> (\<not> IsAccessChainRValue ac \<longrightarrow>
        (\<exists>pointer dc bc.
           accessChainCollapse d b = Inr (pointer, dc, bc) \<and>
           accessChainLoad d b =
             afterwards (NewId (mNextId bc)) dc
               (bc\<lparr>mNextId := Suc (mNextId bc),
                   mSpirvCurrentFunctionBlock := mSpirvCurrentFunctionBlock bc @
                     [OpLoad (preSwizzleTypeId ac) (NewId (mNextId bc)) pointer]\<rparr>)))"
proof -
  have sw: "swizzles ac = [] \<or> 1 < length (swizzles ac)"
    using swz by (cases "swizzles ac") auto
  note defs = accessChainLoad_def accessChainLoadBase_def accessChainLoadSwizzle_def
    accessChainLoadDynamicComponent_def pending_def afterwards_def Let_def getNewId_def
    writeBlock_def
  have unindexed: "accessChainLoad d b = afterwards (baseId d) d b"
    if "IsAccessChainRValue ac \<and> idList d = []"
    using that sw dyn by (auto simp: defs ac_def)
  have literal: "accessChainLoad d b =
          afterwards (NewId (mNextId b)) d
            (b\<lparr>mNextId := Suc (mNextId b),
               mSpirvCurrentFunctionBlock := mSpirvCurrentFunctionBlock b @
                 [OpCompositeExtract (preSwizzleTypeId ac) (NewId (mNextId b)) (baseId d)
                    (map literalPart (idList d))]\<rparr>)"
    if "IsAccessChainRValue ac \<and> idList d \<noteq> [] \<and> areAllIndicesLiteral ac \<and>
          list_all (\<lambda>e. \<not> valid (idPart e)) (idList d)"
    using that sw dyn
    by (auto simp: defs ac_def makeAccessChainLiteralList_def literalsOf_all_literal)
  have spill: "accessChainLoad d b =
          accessChainLoad
            (d\<lparr>baseId := NewId (mNextId b),
               accessChain := ac\<lparr>storageClass := StorageClassFunction\<rparr>\<rparr>)
            (b\<lparr>mNextId := Suc (mNextId b),
               mLocalVariables := mLocalVariables b @
                 [OpVariable (TypePointerId (preSwizzleTypeId ac) StorageClassFunction)
                    (NewId (mNextId b)) StorageClassFunction],
               mSpirvCurrentFunctionBlock := mSpirvCurrentFunctionBlock b @
                 [OpStore (NewId (mNextId b)) (baseId d)]\<rparr>)"
    if "IsAccessChainRValue ac \<and> idList d \<noteq> [] \<and> \<not> areAllIndicesLiteral ac"
    using that
    by (simp add: accessChainLoad_def accessChainLoadBase_def Let_def getNewId_def
        writeBlock_def ac_def declareVariable_def getTypePointerId_def IsAccessChainRValue_def)
  have lvalue: "\<exists>pointer dc bc.
           accessChainCollapse d b = Inr (pointer, dc, bc) \<and>
           accessChainLoad d b =
             afterwards (NewId (mNextId bc)) dc
               (bc\<lparr>mNextId := Suc (mNextId bc),
                   mSpirvCurrentFunctionBlock := mSpirvCurrentFunctionBlock bc @
                     [OpLoad (preSwizzleTypeId ac) (NewId (mNextId bc)) pointer]\<rparr>)"
    if "\<not> IsAccessChainRValue ac"
    using that sw dyn
    by (auto simp: defs ac_def accessChainCollapse_def IsAccessChainRValue_def)
  show ?thesis using unindexed literal spill lvalue by blast
qed

text \<open>
  The four rows of the table at the example access chains: the base id itself; one
  \<open>OpCompositeExtract\<close> with the literals 3 and 5, then the \<open>OpVectorShuffle\<close> of the
  pending swizzle; the variable with id 10, \<open>OpStore\<close>, \<open>OpAccessChain\<close> and \<open>OpLoad\<close>;
  \<open>OpAccessChain\<close> and \<open>OpLoad\<close>.
\<close>

theorem accessChainLoad_decision_table_witness:
  "accessChainLoad rvalueUnindexed exampleBuilder =
     Inr (NewId 1, rvalueUnindexed, exampleBuilder)
   \<and> accessChainLoad rvalueLiteralSwizzle exampleBuilder =
       Inr (NewId 11, rvalueLiteralSwizzle,
            exampleBuilder\<lparr>mNextId := 12,
              mSpirvCurrentFunctionBlock :=
                [OpCompositeExtract (NewId 6) (NewId 10) (NewId 1) [3, 5],
                 OpVectorShuffle (NewId 8) (NewId 11) (NewId 10) (NewId 10) [0, 1]]\<rparr>)
   \<and> accessChainLoad rvalueDynamicIndex exampleBuilder =
       Inr (NewId 12,
            rvalueDynamicIndex\<lparr>baseId := NewId 10,
              accessChain := (accessChain rvalueDynamicIndex)
                \<lparr>storageClass := StorageClassFunction, accessChainId := NewId 11\<rparr>\<rparr>,
            exampleBuilder\<lparr>mNextId := 13,
              mLocalVariables :=
                [OpVariable (TypePointerId (NewId 6) StorageClassFunction) (NewId 10)
                   StorageClassFunction],
              mSpirvCurrentFunctionBlock :=
                [OpStore (NewId 10) (NewId 1),
                 OpAccessChain (TypePointerId (NewId 6) StorageClassFunction) (NewId 11)
                   (NewId 10) [UintConstant 3, NewId 7],
                 OpLoad (NewId 6) (NewId 12) (NewId 11)]\<rparr>)
   \<and> accessChainLoad lvalueDynamicIndex exampleBuilder =
       Inr (NewId 11,
            lvalueDynamicIndex\<lparr>accessChain := (accessChain lvalueDynamicIndex)
                \<lparr>accessChainId := NewId 10\<rparr>\<rparr>,
            exampleBuilder\<lparr>mNextId := 12,
              mSpirvCurrentFunctionBlock :=
                [OpAccessChain (TypePointerId (NewId 6) StorageClassPrivate) (NewId 10)
                   (NewId 1) [UintConstant 3, NewId 7],
                 OpLoad (NewId 6) (NewId 11) (NewId 10)]\<rparr>)"
  using accessChainLoad_decision_table [of rvalueUnindexed exampleBuilder]
    accessChainLoad_decision_table [of rvalueLiteralSwizzle exampleBuilder]
    accessChainLoad_decision_table [of rvalueDynamicIndex exampleBuilder]
    accessChainLoad_decision_table [of lvalueDynamicIndex exampleBuilder]
  by (simp add: rvalueUnindexed_def rvalueLiteralSwizzle_def rvalueDynamicIndex_def
      lvalueDynamicIndex_def example_defs load_defs)

text \<open>
  C1.  The load of \<open>r.xyz[i]\<close> with \<open>r\<close> an rvalue, where a multi-component swizzle and
  a dynamic component are both pending: \<open>accessChainPushDynamicComponent\<close> keeps the
  dynamic component beside the swizzle that \<open>accessChainPushSwizzle\<close> has left pending, as
  the comment of the access chain says of \<open>rvalue.xyz[i]\<close>, and \<open>accessChainLoad\<close> then
  fails its assertion that the swizzle is empty, where the decision table has one
  \<open>OpVectorShuffle\<close> followed by one \<open>OpVectorExtractDynamic\<close>.
\<close>

theorem accessChainLoad_swizzle_with_dynamic_component:
  "rvalueSwizzleDynamic = Inr (rvalueSwizzleDynamicData, exampleBuilder)
   \<and> accessChainLoad rvalueSwizzleDynamicData exampleBuilder =
       Inl (AssertionFailure ''accessChain.swizzles.empty()'')"
  by (simp add: rvalueSwizzleDynamic_def rvalueSwizzleDynamicData_def
      accessChainPushSwizzle_def accessChainPushDynamicComponent_def example_defs load_defs)

subsection \<open>Storing through an access chain\<close>

lemma mod_step:
  "(n + (src + 1) mod M + k) mod M = (n + src + Suc k) mod (M::nat)"
proof -
  have "(n + (src + 1) mod M + k) mod M = ((src + 1) mod M + (n + k)) mod M"
    by (simp add: ac_simps)
  also have "\<dots> = (src + 1 + (n + k)) mod M"
    by (rule mod_add_left_eq)
  also have "\<dots> = (n + src + Suc k) mod M"
    by (simp add: ac_simps)
  finally show ?thesis .
qed

lemma overwriteSwizzles_result:
  "\<forall>c \<in> set sw. c < length l \<Longrightarrow>
   \<exists>m. overwriteSwizzles sw n src l = Inr m \<and> length m = length l \<and>
       (\<forall>i < length l. i \<notin> set sw \<longrightarrow> m ! i = l ! i) \<and>
       (\<forall>j < length sw. sw ! j \<notin> set (drop (Suc j) sw) \<longrightarrow>
          m ! (sw ! j) = (n + src + j) mod 2 ^ 32)"
proof (induction sw arbitrary: src l)
  case Nil
  then show ?case by simp
next
  case (Cons dst rest)
  let ?l = "l[dst := (n + src) mod 2 ^ 32]"
  let ?src = "(src + 1) mod 2 ^ 32"
  from Cons.prems have dst: "dst < length l" and rest: "\<forall>c \<in> set rest. c < length ?l"
    by simp_all
  from Cons.IH [OF rest, of ?src] obtain m where
    run: "overwriteSwizzles rest n ?src ?l = Inr m" and
    len: "length m = length l" and
    keep: "\<forall>i < length l. i \<notin> set rest \<longrightarrow> m ! i = ?l ! i" and
    put: "\<forall>j < length rest. rest ! j \<notin> set (drop (Suc j) rest) \<longrightarrow>
            m ! (rest ! j) = (n + ?src + j) mod 2 ^ 32"
    by auto
  have "overwriteSwizzles (dst # rest) n src l = Inr m"
    using dst run by simp
  moreover have "\<forall>i < length l. i \<notin> set (dst # rest) \<longrightarrow> m ! i = l ! i"
    using keep by simp
  moreover have "\<forall>j < length (dst # rest).
      (dst # rest) ! j \<notin> set (drop (Suc j) (dst # rest)) \<longrightarrow>
      m ! ((dst # rest) ! j) = (n + src + j) mod 2 ^ 32"
  proof (intro allI impI)
    fix j
    assume j: "j < length (dst # rest)"
      and last: "(dst # rest) ! j \<notin> set (drop (Suc j) (dst # rest))"
    show "m ! ((dst # rest) ! j) = (n + src + j) mod 2 ^ 32"
    proof (cases j)
      case 0
      with last keep dst show ?thesis by simp
    next
      case (Suc k)
      with j last put have "m ! (rest ! k) = (n + ?src + k) mod 2 ^ 32"
        by simp
      also have "\<dots> = (n + src + Suc k) mod 2 ^ 32"
        by (rule mod_step)
      finally show ?thesis using Suc by simp
    qed
  qed
  ultimately show ?case using len by blast
qed

lemma storeSwizzleList_result:
  assumes "\<forall>c \<in> set (swizzles ac). c < swizzledVectorComponentCount ac"
  shows "\<exists>m. storeSwizzleList ac = Inr m \<and> length m = swizzledVectorComponentCount ac \<and>
       (\<forall>i < swizzledVectorComponentCount ac. i \<notin> set (swizzles ac) \<longrightarrow> m ! i = i) \<and>
       (\<forall>j < length (swizzles ac). swizzles ac ! j \<notin> set (drop (Suc j) (swizzles ac)) \<longrightarrow>
          m ! (swizzles ac ! j) = (swizzledVectorComponentCount ac + j) mod 2 ^ 32)"
  using overwriteSwizzles_result [of "swizzles ac" "[0 ..< swizzledVectorComponentCount ac]"
      "swizzledVectorComponentCount ac" 0] assms
  by (simp add: storeSwizzleList_def)

lemma accessChainCollapse_lvalue:
  assumes "storageClass (accessChain d) \<noteq> StorageClassMax"
  shows "\<exists>pointer dc bc.
     accessChainCollapse d b = Inr (pointer, dc, bc) \<and>
     swizzles (accessChain dc) = swizzles (accessChain d) \<and>
     preSwizzleTypeId (accessChain dc) = preSwizzleTypeId (accessChain d) \<and>
     postSwizzleTypeId (accessChain dc) = postSwizzleTypeId (accessChain d) \<and>
     swizzledVectorComponentCount (accessChain dc) =
       swizzledVectorComponentCount (accessChain d)"
  using assms by (simp add: accessChainCollapse_def Let_def getNewId_def)

lemma last_occurrence:
  assumes "x \<in> set xs"
  shows "\<exists>j < length xs. xs ! j = x \<and> x \<notin> set (drop (Suc j) xs)"
proof -
  from split_list_last [OF assms] obtain ys zs where xs: "xs = ys @ x # zs" and "x \<notin> set zs"
    by blast
  then have "length ys < length xs \<and> xs ! length ys = x \<and> x \<notin> set (drop (Suc (length ys)) xs)"
    by simp
  then show ?thesis by blast
qed

lemma update_at_2: "[a, b, c, d][2 := x] = [a, b, x, d]"
  by (simp add: numeral_2_eq_2)

lemma overwriteSwizzles_no_assertion:
  "overwriteSwizzles sw n src l \<noteq> Inl (AssertionFailure msg)"
  by (induction sw arbitrary: src l) simp_all

lemma swizzled_store_value:
  fixes m :: "'a Machine"
  assumes len: "length sl = n"
    and keep: "\<forall>i < n. i \<notin> set sw \<longrightarrow> sl ! i = i"
    and put: "\<forall>j < length sw. sw ! j \<notin> set (drop (Suc j) sw) \<longrightarrow> sl ! (sw ! j) = (n + j) mod 2 ^ 32"
    and inside: "\<forall>c \<in> set sw. c < n"
    and mem: "memory m pointer = Some (t, v)" and v: "length v = n"
    and vector: "typeComponentCount m t = Some n"
    and uval: "resultValues m val = Some (tu, u)" and u: "length u = length sw"
    and source: "typeComponentCount m tu = Some (length u)"
    and fresh: "val \<noteq> loaded"
    and small: "n + length sw \<le> 2 ^ 32"
  shows "\<exists>m' v'. executeBlock [OpLoad t loaded pointer, OpVectorShuffle t result loaded val sl,
                    OpStore pointer result] m = Some m' \<and>
           memory m' pointer = Some (t, v') \<and> length v' = n \<and>
           (\<forall>i < n. i \<notin> set sw \<longrightarrow> v' ! i = v ! i) \<and>
           (\<forall>j < length sw. sw ! j \<notin> set (drop (Suc j) sw) \<longrightarrow> v' ! (sw ! j) = u ! j)"
proof -
  have wrap: "(n + j) mod 2 ^ 32 = n + j" if "j < length sw" for j
    using that small by simp
  have entry: "sl ! i < n + length sw \<and>
      (v @ u) ! (sl ! i) = (if i \<in> set sw then u ! (SOME j. j < length sw \<and> sw ! j = i \<and> i \<notin> set (drop (Suc j) sw)) else v ! i)"
    if i: "i < n" for i
  proof (cases "i \<in> set sw")
    case False
    with keep i v show ?thesis by (simp add: nth_append)
  next
    case True
    let ?P = "\<lambda>j. j < length sw \<and> sw ! j = i \<and> i \<notin> set (drop (Suc j) sw)"
    from last_occurrence [OF True] have "\<exists>j. ?P j" by blast
    then have P: "?P (SOME j. ?P j)" by (rule someI_ex)
    let ?j = "SOME j. ?P j"
    from P put have "sl ! i = (n + ?j) mod 2 ^ 32" by auto
    with wrap P have "sl ! i = n + ?j" by simp
    with P True v show ?thesis by (simp add: nth_append)
  qed
  have bound: "list_all (\<lambda>c. c < length v + length u) sl"
    unfolding list_all_length using entry len v u by simp
  let ?v' = "map (\<lambda>c. (v @ u) ! c) sl"
  let ?m' = "m\<lparr>resultValues := (resultValues m)(loaded \<mapsto> (t, v), result \<mapsto> (t, ?v')),
              memory := (memory m)(pointer \<mapsto> (t, ?v'))\<rparr>"
  have run: "executeBlock [OpLoad t loaded pointer, OpVectorShuffle t result loaded val sl,
                    OpStore pointer result] m = Some ?m'"
    using mem uval fresh bound vector source len v by simp
  have a: "\<forall>i < n. i \<notin> set sw \<longrightarrow> ?v' ! i = v ! i"
    using entry len by simp
  have b: "\<forall>j < length sw. sw ! j \<notin> set (drop (Suc j) sw) \<longrightarrow> ?v' ! (sw ! j) = u ! j"
  proof (intro allI impI)
    fix j assume j: "j < length sw" and l: "sw ! j \<notin> set (drop (Suc j) sw)"
    from j inside have i: "sw ! j < n" by simp
    from put j l wrap have "sl ! (sw ! j) = n + j" by simp
    with i len v show "?v' ! (sw ! j) = u ! j" by (simp add: nth_append)
  qed
  from run a b len show ?thesis by simp
qed

lemma swizzled_store_result_type:
  fixes m :: "'a Machine"
  assumes "typeComponentCount m t2 \<noteq> Some (length sl)"
  shows "executeBlock [OpLoad t1 loaded pointer, OpVectorShuffle t2 result loaded val sl,
                       OpStore pointer result] m = None"
  using assms by (simp split: option.splits prod.splits)

text \<open>
  The instructions of a store through an lvalue access chain with a pending swizzle of
  several components, all of them inside of the swizzled vector: the chain is collapsed to a
  pointer, the vector is loaded from it, shuffled with the stored value and the result of the
  shuffle is stored to the same pointer.  The shuffle mask has one entry for each component
  of the vector: the entry of an unswizzled lane is the lane itself, and the entry of the
  lane that the swizzle names at position \<open>j\<close> (and not again later) is the component \<open>j\<close>
  of the second vector.  The Result Type of the shuffle is \<open>postSwizzleTypeId\<close>, the type
  of the swizzle: on a machine where this type does not have as many components as the
  swizzled vector the instructions have no result.  With the type of the vector as the Result
  Type, the same three instructions leave at the pointer the vector that agrees with the old
  one on the unswizzled lanes and has the component \<open>j\<close> of the stored value at the lane
  that the swizzle names at position \<open>j\<close>.
\<close>

lemma accessChainStore_swizzle_instructions:
  fixes d :: NodeData and b :: SPIRVBuilder and val :: IdRef
  defines "ac \<equiv> accessChain d"
  defines "n \<equiv> swizzledVectorComponentCount ac"
  assumes lvalue: "\<not> IsAccessChainRValue ac"
    and folded: "\<not> valid (dynamicComponent ac)"
    and multi: "1 < length (swizzles ac)"
    and inside: "\<forall>c \<in> set (swizzles ac). c < n"
    and small: "n + length (swizzles ac) \<le> 2 ^ 32"
  shows "\<exists>pointer dc bc swizzleList.
     accessChainCollapse d b = Inr (pointer, dc, bc) \<and>
     accessChainStore d val b =
       Inr (dc, bc\<lparr>mNextId := mNextId bc + 2,
                   mSpirvCurrentFunctionBlock := mSpirvCurrentFunctionBlock bc @
                     [OpLoad (preSwizzleTypeId ac) (NewId (mNextId bc)) pointer,
                      OpVectorShuffle (postSwizzleTypeId ac) (NewId (Suc (mNextId bc)))
                        (NewId (mNextId bc)) val swizzleList,
                      OpStore pointer (NewId (Suc (mNextId bc)))]\<rparr>) \<and>
     length swizzleList = n \<and>
     (\<forall>i < n. i \<notin> set (swizzles ac) \<longrightarrow> swizzleList ! i = i) \<and>
     (\<forall>j < length (swizzles ac). swizzles ac ! j \<notin> set (drop (Suc j) (swizzles ac)) \<longrightarrow>
        swizzleList ! (swizzles ac ! j) = n + j) \<and>
     (\<forall>m :: 'a Machine.
        typeComponentCount m (postSwizzleTypeId ac) \<noteq> Some n \<longrightarrow>
        executeBlock
          [OpLoad (preSwizzleTypeId ac) (NewId (mNextId bc)) pointer,
           OpVectorShuffle (postSwizzleTypeId ac) (NewId (Suc (mNextId bc)))
             (NewId (mNextId bc)) val swizzleList,
           OpStore pointer (NewId (Suc (mNextId bc)))] m = None) \<and>
     (\<forall>(m :: 'a Machine) v tu u.
        memory m pointer = Some (preSwizzleTypeId ac, v) \<and> length v = n \<and>
        typeComponentCount m (preSwizzleTypeId ac) = Some n \<and>
        resultValues m val = Some (tu, u) \<and> length u = length (swizzles ac) \<and>
        typeComponentCount m tu = Some (length u) \<and>
        val \<noteq> NewId (mNextId bc) \<longrightarrow>
        (\<exists>m' v'. executeBlock
             [OpLoad (preSwizzleTypeId ac) (NewId (mNextId bc)) pointer,
              OpVectorShuffle (preSwizzleTypeId ac) (NewId (Suc (mNextId bc)))
                (NewId (mNextId bc)) val swizzleList,
              OpStore pointer (NewId (Suc (mNextId bc)))] m = Some m' \<and>
           memory m' pointer = Some (preSwizzleTypeId ac, v') \<and> length v' = n \<and>
           (\<forall>i < n. i \<notin> set (swizzles ac) \<longrightarrow> v' ! i = v ! i) \<and>
           (\<forall>j < length (swizzles ac).
              swizzles ac ! j \<notin> set (drop (Suc j) (swizzles ac)) \<longrightarrow>
              v' ! (swizzles ac ! j) = u ! j)))"
proof -
  from lvalue obtain pointer dc bc where
    collapse: "accessChainCollapse d b = Inr (pointer, dc, bc)" and
    same: "swizzles (accessChain dc) = swizzles ac"
      "preSwizzleTypeId (accessChain dc) = preSwizzleTypeId ac"
      "postSwizzleTypeId (accessChain dc) = postSwizzleTypeId ac"
      "swizzledVectorComponentCount (accessChain dc) = n"
    using accessChainCollapse_lvalue [of d b]
    unfolding IsAccessChainRValue_def ac_def n_def by blast
  from inside same obtain swizzleList where
    shuffle: "storeSwizzleList (accessChain dc) = Inr swizzleList" and
    len: "length swizzleList = n" and
    keep: "\<forall>i < n. i \<notin> set (swizzles ac) \<longrightarrow> swizzleList ! i = i" and
    put: "\<forall>j < length (swizzles ac). swizzles ac ! j \<notin> set (drop (Suc j) (swizzles ac)) \<longrightarrow>
         swizzleList ! (swizzles ac ! j) = (n + j) mod 2 ^ 32"
    using storeSwizzleList_result [of "accessChain dc"] by auto
  have put': "\<forall>j < length (swizzles ac).
      swizzles ac ! j \<notin> set (drop (Suc j) (swizzles ac)) \<longrightarrow>
      swizzleList ! (swizzles ac ! j) = n + j"
    using put small by simp
  have nonempty: "swizzles ac \<noteq> []" and notone: "length (swizzles ac) \<noteq> 1"
    using multi by auto
  have store: "accessChainStore d val b =
       Inr (dc, bc\<lparr>mNextId := mNextId bc + 2,
                   mSpirvCurrentFunctionBlock := mSpirvCurrentFunctionBlock bc @
                     [OpLoad (preSwizzleTypeId ac) (NewId (mNextId bc)) pointer,
                      OpVectorShuffle (postSwizzleTypeId ac) (NewId (Suc (mNextId bc)))
                        (NewId (mNextId bc)) val swizzleList,
                      OpStore pointer (NewId (Suc (mNextId bc)))]\<rparr>)"
    using folded nonempty notone collapse shuffle same
    by (simp add: accessChainStore_def Let_def getNewId_def writeBlock_def ac_def [symmetric])
  have stuck: "executeBlock
          [OpLoad (preSwizzleTypeId ac) (NewId (mNextId bc)) pointer,
           OpVectorShuffle (postSwizzleTypeId ac) (NewId (Suc (mNextId bc)))
             (NewId (mNextId bc)) val swizzleList,
           OpStore pointer (NewId (Suc (mNextId bc)))] m = None"
    if "typeComponentCount m (postSwizzleTypeId ac) \<noteq> Some n" for m :: "'a Machine"
    using that len swizzled_store_result_type [of m "postSwizzleTypeId ac" swizzleList]
    by simp
  have run: "\<exists>m' v'. executeBlock
             [OpLoad (preSwizzleTypeId ac) (NewId (mNextId bc)) pointer,
              OpVectorShuffle (preSwizzleTypeId ac) (NewId (Suc (mNextId bc)))
                (NewId (mNextId bc)) val swizzleList,
              OpStore pointer (NewId (Suc (mNextId bc)))] m = Some m' \<and>
           memory m' pointer = Some (preSwizzleTypeId ac, v') \<and> length v' = n \<and>
           (\<forall>i < n. i \<notin> set (swizzles ac) \<longrightarrow> v' ! i = v ! i) \<and>
           (\<forall>j < length (swizzles ac).
              swizzles ac ! j \<notin> set (drop (Suc j) (swizzles ac)) \<longrightarrow>
              v' ! (swizzles ac ! j) = u ! j)"
    if "memory m pointer = Some (preSwizzleTypeId ac, v) \<and> length v = n \<and>
        typeComponentCount m (preSwizzleTypeId ac) = Some n \<and>
        resultValues m val = Some (tu, u) \<and> length u = length (swizzles ac) \<and>
        typeComponentCount m tu = Some (length u) \<and>
        val \<noteq> NewId (mNextId bc)"
    for m :: "'a Machine" and v tu u
    using that
      swizzled_store_value [OF len keep put inside _ _ _ _ _ _ _ small,
        of m pointer "preSwizzleTypeId ac" v val tu u]
    by blast
  from collapse store len keep put' stuck run show ?thesis by blast
qed

text \<open>
  C2.  The store \<open>v.zx = u\<close> with \<open>v\<close> a variable of the type \<open>vec4\<close> and \<open>u\<close> of the
  type \<open>vec2\<close>.  \<open>accessChainStore\<close> writes \<open>OpLoad\<close> of the vector, \<open>OpVectorShuffle\<close>
  of the loaded vector and \<open>u\<close> with the mask \<open>5, 1, 4, 3\<close>, and \<open>OpStore\<close> of the result
  of the shuffle to \<open>v\<close>; the mask is the identity on the lanes \<open>y\<close> and \<open>w\<close> and routes
  the lanes \<open>z\<close> and \<open>x\<close> to the components of \<open>u\<close>.  The Result Type of the shuffle is the
  type of \<open>v.zx\<close>, which has two components where the mask has four, so that with
  \<open>v = (a, b, c, d)\<close> and \<open>u = (p, q)\<close> the three instructions have no result, and \<open>v\<close> has
  no value after the store.  With the type of \<open>v\<close> as the Result Type, the same
  instructions leave \<open>(q, b, p, d)\<close> in \<open>v\<close>.
\<close>

theorem accessChainStore_swizzle_result_type:
  "accessChainPushSwizzle (nodeDataInitLValue (NewId 1) (NewId 2) StorageClassPrivate
       EbsUnspecified) [2, 0] (NewId 3) 4 = Inr lvalueSwizzleZX
   \<and> accessChainStore lvalueSwizzleZX (NewId 9) exampleBuilder =
       Inr (lvalueSwizzleZX\<lparr>accessChain := (accessChain lvalueSwizzleZX)
              \<lparr>accessChainId := NewId 1\<rparr>\<rparr>,
            exampleBuilder\<lparr>mNextId := 12,
              mSpirvCurrentFunctionBlock :=
                [OpLoad (NewId 2) (NewId 10) (NewId 1),
                 OpVectorShuffle (NewId 3) (NewId 11) (NewId 10) (NewId 9) [5, 1, 4, 3],
                 OpStore (NewId 1) (NewId 11)]\<rparr>)
   \<and> typeComponentCount exampleMachine (NewId 3) = Some 2
   \<and> executeBlock
        [OpLoad (NewId 2) (NewId 10) (NewId 1),
         OpVectorShuffle (NewId 3) (NewId 11) (NewId 10) (NewId 9) [5, 1, 4, 3],
         OpStore (NewId 1) (NewId 11)] exampleMachine = None
   \<and> map_option (\<lambda>m. memory m (NewId 1))
        (executeBlock
           [OpLoad (NewId 2) (NewId 10) (NewId 1),
            OpVectorShuffle (NewId 2) (NewId 11) (NewId 10) (NewId 9) [5, 1, 4, 3],
            OpStore (NewId 1) (NewId 11)] exampleMachine) =
       Some (Some (NewId 2, [''q'', ''b'', ''p'', ''d'']))"
  by (simp add: lvalueSwizzleZX_def exampleMachine_def accessChainPushSwizzle_def
      accessChainStore_def storeSwizzleList_def example_defs load_defs upt_rec
      update_at_2)

text \<open>
  C7.  When \<open>accessChainStore\<close> is given an lvalue whose dynamic component is not pending
  and whose pending swizzle does not have exactly one component, none of its assertions
  fails, that of \<open>accessChainCollapse\<close> included; and when the components of the swizzle are
  inside of the swizzled vector, the store completes.  The operations that make access chains
  keep to these conditions: a swizzle that has been pushed never leaves exactly one component
  pending, and a dynamic component that has been pushed on an lvalue is not pending but
  folded into the indices, with no swizzle left.
\<close>

theorem accessChainStore_assertions:
  "(\<not> IsAccessChainRValue (accessChain d) \<and> \<not> valid (dynamicComponent (accessChain d)) \<and>
    length (swizzles (accessChain d)) \<noteq> 1 \<longrightarrow>
      (\<forall>msg. accessChainStore d val b \<noteq> Inl (AssertionFailure msg)) \<and>
      ((\<forall>c \<in> set (swizzles (accessChain d)).
           c < swizzledVectorComponentCount (accessChain d)) \<longrightarrow>
       (\<exists>d' b'. accessChainStore d val b = Inr (d', b'))))
   \<and> (accessChainPushSwizzle d0 swizzle typeId componentCount = Inr d1 \<longrightarrow>
        length (swizzles (accessChain d1)) \<noteq> 1)
   \<and> (\<not> IsAccessChainRValue (accessChain d0) \<and>
      accessChainPushDynamicComponent d0 index typeId b0 = Inr (d2, b2) \<longrightarrow>
        \<not> IsAccessChainRValue (accessChain d2) \<and>
        \<not> valid (dynamicComponent (accessChain d2)) \<and> swizzles (accessChain d2) = [])"
proof -
  have store: "(\<forall>msg. accessChainStore d val b \<noteq> Inl (AssertionFailure msg)) \<and>
      ((\<forall>c \<in> set (swizzles (accessChain d)).
           c < swizzledVectorComponentCount (accessChain d)) \<longrightarrow>
       (\<exists>d' b'. accessChainStore d val b = Inr (d', b')))"
    if pre: "\<not> IsAccessChainRValue (accessChain d) \<and>
        \<not> valid (dynamicComponent (accessChain d)) \<and>
        length (swizzles (accessChain d)) \<noteq> 1"
  proof -
    from pre obtain pointer dc bc where
      collapse: "accessChainCollapse d b = Inr (pointer, dc, bc)" and
      same: "swizzles (accessChain dc) = swizzles (accessChain d)"
        "swizzledVectorComponentCount (accessChain dc) =
           swizzledVectorComponentCount (accessChain d)"
      using accessChainCollapse_lvalue [of d b]
      unfolding IsAccessChainRValue_def by blast
    have "accessChainStore d val b \<noteq> Inl (AssertionFailure msg)" for msg
      using pre collapse overwriteSwizzles_no_assertion
      by (auto simp: accessChainStore_def Let_def getNewId_def storeSwizzleList_def
          split: sum.splits)
    moreover have "\<exists>d' b'. accessChainStore d val b = Inr (d', b')"
      if "\<forall>c \<in> set (swizzles (accessChain d)).
            c < swizzledVectorComponentCount (accessChain d)"
    proof -
      from that same obtain swizzleList where
        "storeSwizzleList (accessChain dc) = Inr swizzleList"
        using storeSwizzleList_result [of "accessChain dc"] by auto
      with pre collapse show ?thesis
        by (simp add: accessChainStore_def Let_def getNewId_def)
    qed
    ultimately show ?thesis by blast
  qed
  have swizzle: "length (swizzles (accessChain d1)) \<noteq> 1"
    if "accessChainPushSwizzle d0 swizzle typeId componentCount = Inr d1"
    using that
    by (auto simp: accessChainPushSwizzle_def accessChainPushLiteral_def split: if_splits)
  have component: "\<not> IsAccessChainRValue (accessChain d2) \<and>
        \<not> valid (dynamicComponent (accessChain d2)) \<and> swizzles (accessChain d2) = []"
    if "\<not> IsAccessChainRValue (accessChain d0) \<and>
      accessChainPushDynamicComponent d0 index typeId b0 = Inr (d2, b2)"
    using that
    by (auto simp: accessChainPushDynamicComponent_def accessChainPush_def Let_def
        getNewId_def IsAccessChainRValue_def split: if_splits)
  from store swizzle component show ?thesis by blast
qed

theorem accessChainStore_assertions_witness:
  "accessChainStore lvalueDynamicIndex (NewId 9) exampleBuilder =
     Inr (lvalueDynamicIndex\<lparr>accessChain := (accessChain lvalueDynamicIndex)
            \<lparr>accessChainId := NewId 10\<rparr>\<rparr>,
          exampleBuilder\<lparr>mNextId := 11,
            mSpirvCurrentFunctionBlock :=
              [OpAccessChain (TypePointerId (NewId 6) StorageClassPrivate) (NewId 10)
                 (NewId 1) [UintConstant 3, NewId 7],
               OpStore (NewId 10) (NewId 9)]\<rparr>)
   \<and> accessChainPushSwizzle
         (nodeDataInitLValue (NewId 1) (NewId 2) StorageClassPrivate EbsUnspecified) [2]
         (NewId 3) 4 =
       Inr (accessChainPushLiteral
              (nodeDataInitLValue (NewId 1) (NewId 2) StorageClassPrivate EbsUnspecified) 2
              (NewId 3))
   \<and> accessChainPushDynamicComponent lvalueSwizzleZX (NewId 7) (NewId 6) exampleBuilder =
       Inr (lvalueSwizzleZX
              \<lparr>idList := [fromId (NewId 11)],
               accessChain := (accessChain lvalueSwizzleZX)
                 \<lparr>swizzles := [], areAllIndicesLiteral := False,
                  preSwizzleTypeId := NewId 6\<rparr>\<rparr>,
            exampleBuilder
              \<lparr>mNextId := 12,
               mSpirvTypeAndConstantDecls :=
                 [OpConstantComposite
                    (SpirvTypeId \<lparr>spirvBasicType = EbtUInt, primarySize = 2,
                                  secondarySize = 1\<rparr>)
                    (NewId 10) [UintConstant 2, UintConstant 0]],
               mSpirvCurrentFunctionBlock :=
                 [OpVectorExtractDynamic
                    (SpirvTypeId \<lparr>spirvBasicType = EbtUInt, primarySize = 1,
                                  secondarySize = 1\<rparr>)
                    (NewId 11) (NewId 10) (NewId 7)]\<rparr>)"
proof -
  have pre: "\<not> IsAccessChainRValue (accessChain lvalueDynamicIndex) \<and>
      \<not> valid (dynamicComponent (accessChain lvalueDynamicIndex)) \<and>
      length (swizzles (accessChain lvalueDynamicIndex)) \<noteq> 1"
    and inside: "\<forall>c \<in> set (swizzles (accessChain lvalueDynamicIndex)).
      c < swizzledVectorComponentCount (accessChain lvalueDynamicIndex)"
    by (simp_all add: lvalueDynamicIndex_def example_defs)
  from accessChainStore_assertions
    [where d = lvalueDynamicIndex and val = "NewId 9" and b = exampleBuilder,
      THEN conjunct1, THEN mp, OF pre, THEN conjunct2, THEN mp, OF inside]
  have "\<exists>d' b'. accessChainStore lvalueDynamicIndex (NewId 9) exampleBuilder = Inr (d', b')" .
  then show ?thesis
    by (simp add: lvalueDynamicIndex_def lvalueSwizzleZX_def accessChainStore_def
        accessChainPushSwizzle_def accessChainPushDynamicComponent_def getSpirvTypeData_def
        example_defs load_defs)
qed

subsection \<open>Identity swizzles\<close>

text \<open>
  C9.  A swizzle node that selects all the components of its operand vector in their
  order, the size of the vector fitting \<^verbatim>\<open>uint8_t\<close>, is visited without any change of the
  traverser: no instruction is written, and the entry on top of the node data, which is
  that of the operand, stays as it is, so that a load of the swizzled expression is the load
  of the operand.
\<close>

theorem visitSwizzle_identity:
  assumes "\<not> hasConstantValue node"
    and "operandNominalSize node < 256"
    and "getSwizzleOffsets node = map int [0 ..< operandNominalSize node]"
    and "mNodeData t \<noteq> []"
  shows "visitSwizzle PreVisit node t = Inr (True, t) \<and>
         visitSwizzle PostVisit node t = Inr (True, t)"
  using assms
  by (cases "mNodeData t")
     (simp_all add: visitSwizzle_def isIdentitySwizzle_def Let_def list_all_iff)

theorem visitSwizzle_identity_witness:
  "visitSwizzle PostVisit exampleSwizzle exampleTraverser = Inr (True, exampleTraverser)"
proof -
  have "getSwizzleOffsets exampleSwizzle = map int [0 ..< operandNominalSize exampleSwizzle]"
    by (simp add: exampleSwizzle_def upt_rec)
  with visitSwizzle_identity [of exampleSwizzle exampleTraverser]
  show ?thesis by (simp add: exampleSwizzle_def exampleTraverser_def)
qed

subsection \<open>Matrix constructors\<close>

lemmas matrix_defs =
  createConstructorMatrixFromScalar_def createConstructorMatrixFromMatrix_def
  zeroConstant_def identityComponent_def getFloatConstant_def getIntConstant_def
  getUintConstant_def getBoolConstant_def getSpirvTypeData_def getNewId_def writeBlock_def
  exampleBuilder_def Let_def upt_rec

lemma diagonal_step:
  assumes "k < rows"
  shows "(if 0 < k
          then ((if k = 0 then replicate rows z else (replicate rows z)[k - 1 := s])[k := s])
                 [k - 1 := z]
          else (if k = 0 then replicate rows z else (replicate rows z)[k - 1 := s])[k := s]) =
         (replicate rows z)[k := s]"
proof (cases k)
  case 0
  then show ?thesis by simp
next
  case (Suc j)
  have "((replicate rows z)[j := s, Suc j := s])[j := z] =
        ((replicate rows z)[j := s, j := z])[Suc j := s]"
    by (simp add: list_update_swap)
  also have "\<dots> = (replicate rows z)[j := z, Suc j := s]"
    by simp
  also have "(replicate rows z)[j := z] = replicate rows z"
    using assms Suc by (simp add: list_update_same_conv)
  finally show ?thesis using Suc by simp
qed

lemma matrixFromScalarColumns_diagonal:
  assumes "cols \<le> rows"
  shows "k \<le> cols \<Longrightarrow>
     matrixFromScalarColumns [k ..< cols] s z ty
       (if k = 0 then replicate rows z else (replicate rows z)[k - 1 := s]) ids b =
     Inr (ids @ map (\<lambda>c. NewId (mNextId b + (c - k))) [k ..< cols],
          b\<lparr>mNextId := mNextId b + (cols - k),
            mSpirvCurrentFunctionBlock := mSpirvCurrentFunctionBlock b @
              map (\<lambda>c. OpCompositeConstruct ty (NewId (mNextId b + (c - k)))
                         ((replicate rows z)[c := s])) [k ..< cols]\<rparr>)"
proof (induction "cols - k" arbitrary: k ids b)
  case 0
  then show ?case by simp
next
  case (Suc m)
  then have k: "k < cols" and rows: "k < rows" and m: "m = cols - Suc k" and le: "Suc k \<le> cols"
    using assms by simp_all
  have upt: "[k ..< cols] = k # [Suc k ..< cols]"
    using k by (simp add: upt_conv_Cons)
  let ?b = "(b\<lparr>mNextId := Suc (mNextId b)\<rparr>)
              \<lparr>mSpirvCurrentFunctionBlock := mSpirvCurrentFunctionBlock b @
                 [OpCompositeConstruct ty (NewId (mNextId b)) ((replicate rows z)[k := s])]\<rparr>"
  have step: "matrixFromScalarColumns [k ..< cols] s z ty
       (if k = 0 then replicate rows z else (replicate rows z)[k - 1 := s]) ids b =
     matrixFromScalarColumns [Suc k ..< cols] s z ty ((replicate rows z)[k := s])
       (ids @ [NewId (mNextId b)]) ?b"
    unfolding upt using rows diagonal_step [OF rows, of z s]
    by (simp add: getNewId_def writeBlock_def Let_def)
  have e1: "map (\<lambda>c. NewId (Suc (mNextId b + (c - Suc k)))) [Suc k ..< cols] =
            map (\<lambda>c. NewId (mNextId b + (c - k))) [Suc k ..< cols]"
    by (rule map_cong) auto
  have e2: "map (\<lambda>c. OpCompositeConstruct ty (NewId (Suc (mNextId b + (c - Suc k))))
                        ((replicate rows z)[c := s])) [Suc k ..< cols] =
            map (\<lambda>c. OpCompositeConstruct ty (NewId (mNextId b + (c - k)))
                        ((replicate rows z)[c := s])) [Suc k ..< cols]"
    by (rule map_cong) auto
  have e3: "Suc (mNextId b + cols - Suc k) = mNextId b + cols - k"
    using k by simp
  from Suc.hyps(1) [OF m le, of "ids @ [NewId (mNextId b)]" ?b]
  have "matrixFromScalarColumns [Suc k ..< cols] s z ty ((replicate rows z)[k := s])
       (ids @ [NewId (mNextId b)]) ?b =
     Inr ((ids @ [NewId (mNextId b)]) @
            map (\<lambda>c. NewId (mNextId ?b + (c - Suc k))) [Suc k ..< cols],
          ?b\<lparr>mNextId := mNextId ?b + (cols - Suc k),
            mSpirvCurrentFunctionBlock := mSpirvCurrentFunctionBlock ?b @
              map (\<lambda>c. OpCompositeConstruct ty (NewId (mNextId ?b + (c - Suc k)))
                         ((replicate rows z)[c := s])) [Suc k ..< cols]\<rparr>)"
    by simp
  with step show ?case
    unfolding upt using k
    by (simp add: e1 e2 e3)
qed

lemma createConstructorMatrixFromScalar_diagonal:
  assumes "getCols type \<le> getRows type"
    and "zeroConstant (getBasicType type) = Inr zeroId"
  shows "createConstructorMatrixFromScalar type typeId (scalarId # rest) b =
     Inr (NewId (mNextId b + getCols type),
          b\<lparr>mNextId := Suc (mNextId b + getCols type),
            mSpirvCurrentFunctionBlock := mSpirvCurrentFunctionBlock b @
              map (\<lambda>c. OpCompositeConstruct
                          (SpirvTypeId ((getSpirvType type)\<lparr>secondarySize := 1\<rparr>))
                          (NewId (mNextId b + c))
                          ((replicate (getRows type) zeroId)[c := scalarId]))
                  [0 ..< getCols type] @
              [OpCompositeConstruct typeId (NewId (mNextId b + getCols type))
                 (map (\<lambda>c. NewId (mNextId b + c)) [0 ..< getCols type])]\<rparr>)"
  using assms matrixFromScalarColumns_diagonal [OF assms(1), of 0 scalarId zeroId
      "SpirvTypeId ((getSpirvType type)\<lparr>secondarySize := 1\<rparr>)" "[]" b]
  by (simp add: createConstructorMatrixFromScalar_def Let_def getSpirvTypeData_def
      getNewId_def writeBlock_def)

text \<open>
  C6 holds when the matrix has no more columns than rows, by
  \<open>createConstructorMatrixFromScalar_diagonal\<close>: one \<open>OpCompositeConstruct\<close> for each
  column, with the scalar at the row of the column index and zero elsewhere, and one for the
  matrix.  With more columns than rows it does not: for \<open>mat3x2(s)\<close> the third column
  writes \<^verbatim>\<open>componentIds[2]\<close> in a vector of two components.
\<close>

theorem createConstructorMatrixFromScalar_mat3x2:
  "createConstructorMatrixFromScalar mat3x2 (NewId 2) [NewId 1] exampleBuilder =
     Inl (IndexOutOfRange ''componentIds[columnIndex]'')"
  by (simp add: mat3x2_def matrix_defs)

text \<open>
  C3 does not hold of \<open>mat3(m)\<close> with \<open>m\<close> a \<open>mat2\<close>.  The third column, which the
  argument does not have, is filled with \<open>OpCompositeExtract\<close> of \<open>m\<close> at \<open>[2, 0]\<close> and
  \<open>[2, 1]\<close>, and the constants are one off the diagonal and zero on it.
\<close>

theorem createConstructorMatrixFromMatrix_mat3_of_mat2:
  "createConstructorMatrixFromMatrix mat3 mat2 (NewId 2) [NewId 1] exampleBuilder =
     Inr (NewId 19,
       exampleBuilder\<lparr>mNextId := 20,
         mSpirvCurrentFunctionBlock :=
           [OpCompositeExtract (SpirvTypeId \<lparr>spirvBasicType = EbtFloat, primarySize = 1, secondarySize = 1\<rparr>)
              (NewId 10) (NewId 1) [0, 0],
            OpCompositeExtract (SpirvTypeId \<lparr>spirvBasicType = EbtFloat, primarySize = 1, secondarySize = 1\<rparr>)
              (NewId 11) (NewId 1) [0, 1],
            OpCompositeConstruct (SpirvTypeId \<lparr>spirvBasicType = EbtFloat, primarySize = 3, secondarySize = 1\<rparr>)
              (NewId 12) [NewId 10, NewId 11, FloatConstant 1],
            OpCompositeExtract (SpirvTypeId \<lparr>spirvBasicType = EbtFloat, primarySize = 1, secondarySize = 1\<rparr>)
              (NewId 13) (NewId 1) [1, 0],
            OpCompositeExtract (SpirvTypeId \<lparr>spirvBasicType = EbtFloat, primarySize = 1, secondarySize = 1\<rparr>)
              (NewId 14) (NewId 1) [1, 1],
            OpCompositeConstruct (SpirvTypeId \<lparr>spirvBasicType = EbtFloat, primarySize = 3, secondarySize = 1\<rparr>)
              (NewId 15) [NewId 13, NewId 14, FloatConstant 1],
            OpCompositeExtract (SpirvTypeId \<lparr>spirvBasicType = EbtFloat, primarySize = 1, secondarySize = 1\<rparr>)
              (NewId 16) (NewId 1) [2, 0],
            OpCompositeExtract (SpirvTypeId \<lparr>spirvBasicType = EbtFloat, primarySize = 1, secondarySize = 1\<rparr>)
              (NewId 17) (NewId 1) [2, 1],
            OpCompositeConstruct (SpirvTypeId \<lparr>spirvBasicType = EbtFloat, primarySize = 3, secondarySize = 1\<rparr>)
              (NewId 18) [NewId 16, NewId 17, FloatConstant 0],
            OpCompositeConstruct (NewId 2) (NewId 19) [NewId 12, NewId 15, NewId 18]]\<rparr>)"
  by (simp add: mat3_def mat2_def matrix_defs)

subsection \<open>Atomic built-ins\<close>





subsection \<open>Function calls\<close>

lemma copyBack_temporary:
  "functionCallCopyBack q tempVarId tempVarTypeId param b =
     (if \<not> valid tempVarId \<or> q = EvqIn then Inr (param, b)
      else accessChainStore param (NewId (mNextId b))
             (b\<lparr>mNextId := Suc (mNextId b),
                mSpirvCurrentFunctionBlock := mSpirvCurrentFunctionBlock b @
                  [OpLoad tempVarTypeId (NewId (mNextId b)) tempVarId]\<rparr>))"
  by (simp add: functionCallCopyBack_def nodeDataInitLValue_def emptyNodeData_def
      emptyAccessChain_def valid_def IsAccessChainRValue_def load_defs)

lemma slot_facts:
  assumes "length done = k" and "k + length (x # rest) = n"
  shows "paramSlot (below @ done @ x # rest) n k = Inr (length below + k)"
    and "(below @ done @ x # rest) ! (length below + k) = x"
    and "(below @ done @ x # rest)[length below + k := y] = below @ (done @ [y]) @ rest"
  using assms by (auto simp: paramSlot_def nth_append list_update_append)

lemma slot_nth:
  "length done = k \<Longrightarrow> (done @ x # rest) ! k = x"
  by (simp add: nth_append)

lemma functionCallParameters_loop:
  assumes "length done = k" and "k + length todo = n" and "length fps = n"
    and "length temps = n" and "length types = n"
  shows "case passArguments (zip (drop k fps) todo) b of
      Inl err \<Rightarrow>
        functionCallParameters [k ..< n] fps n parameters temps types
          (below @ done @ todo) b = Inl err
    | Inr (passed, b1) \<Rightarrow>
        (\<exists>temps' types'.
           functionCallParameters [k ..< n] fps n parameters temps types
             (below @ done @ todo) b =
             Inr (parameters @ map fst passed, temps', types',
                  below @ done @ map (\<lambda>a. snd (snd (snd a))) passed, b1) \<and>
           length passed = length todo \<and> length temps' = n \<and> length types' = n \<and>
           (\<forall>i < k. temps' ! i = temps ! i \<and> types' ! i = types ! i) \<and>
           (\<forall>j < length todo.
              (valid (fst (snd (passed ! j))) \<longrightarrow>
                 temps' ! (k + j) = fst (snd (passed ! j)) \<and>
                 types' ! (k + j) = fst (snd (snd (passed ! j)))) \<and>
              (\<not> valid (fst (snd (passed ! j))) \<longrightarrow>
                 temps' ! (k + j) = temps ! (k + j) \<and> types' ! (k + j) = types ! (k + j))))"
  using assms
proof (induction todo arbitrary: k "done" parameters temps types b)
  case Nil
  then show ?case by simp
next
  case (Cons x rest)
  from Cons.prems have k: "k < n" "k < length fps" by simp_all
  have range: "[k ..< n] = k # [Suc k ..< n]"
    using k by (simp add: upt_conv_Cons)
  have params: "drop k fps = fps ! k # drop (Suc k) fps"
    using k by (simp add: Cons_nth_drop_Suc)
  note slot = slot_facts [OF Cons.prems(1) Cons.prems(2), of below] slot_nth [OF Cons.prems(1)]
  show ?case
  proof (cases "functionCallParameter (fps ! k) x b")
    case (Inl err)
    then show ?thesis
      using k by (simp add: range params slot)
  next
    case (Inr r)
    then obtain v t ty p1 b1 where
      one: "functionCallParameter (fps ! k) x b = Inr (v, t, ty, p1, b1)"
      by (cases r) auto
    let ?temps = "if valid t then temps[k := t] else temps"
    let ?types = "if valid t then types[k := ty] else types"
    have step: "functionCallParameters [k ..< n] fps n parameters temps types
          (below @ done @ x # rest) b =
        functionCallParameters [Suc k ..< n] fps n (parameters @ [v]) ?temps ?types
          (below @ (done @ [p1]) @ rest) b1"
      using k one by (simp add: range slot)
    have pre: "length (done @ [p1]) = Suc k" "Suc k + length rest = n" "length fps = n"
      "length ?temps = n" "length ?types = n"
      using Cons.prems by simp_all
    note IH = Cons.IH [OF pre, where b = b1 and parameters = "parameters @ [v]"]
    show ?thesis
    proof (cases "passArguments (zip (drop (Suc k) fps) rest) b1")
      case (Inl err)
      with IH one step show ?thesis
        by (simp add: params)
    next
      case (Inr r2)
      then obtain passed b2 where
        more: "passArguments (zip (drop (Suc k) fps) rest) b1 = Inr (passed, b2)"
        by (cases r2) auto
      from IH more obtain temps' types' where
        run: "functionCallParameters [Suc k ..< n] fps n (parameters @ [v]) ?temps ?types
             (below @ (done @ [p1]) @ rest) b1 =
             Inr ((parameters @ [v]) @ map fst passed, temps', types',
                  below @ (done @ [p1]) @ map (\<lambda>a. snd (snd (snd a))) passed, b2)" and
        len: "length passed = length rest" "length temps' = n" "length types' = n" and
        before: "\<forall>i < Suc k. temps' ! i = ?temps ! i \<and> types' ! i = ?types ! i" and
        after: "\<forall>j < length rest.
              (valid (fst (snd (passed ! j))) \<longrightarrow>
                 temps' ! (Suc k + j) = fst (snd (passed ! j)) \<and>
                 types' ! (Suc k + j) = fst (snd (snd (passed ! j)))) \<and>
              (\<not> valid (fst (snd (passed ! j))) \<longrightarrow>
                 temps' ! (Suc k + j) = ?temps ! (Suc k + j) \<and>
                 types' ! (Suc k + j) = ?types ! (Suc k + j))"
        by auto
      let ?passed = "(v, t, ty, p1) # passed"
      have all: "passArguments (zip (drop k fps) (x # rest)) b = Inr (?passed, b2)"
        using one more by (simp add: params)
      have result: "functionCallParameters [k ..< n] fps n parameters temps types
             (below @ done @ x # rest) b =
             Inr (parameters @ map fst ?passed, temps', types',
                  below @ done @ map (\<lambda>a. snd (snd (snd a))) ?passed, b2)"
        using step run by simp
      have kept: "\<forall>i < k. temps' ! i = temps ! i \<and> types' ! i = types ! i"
        using before by simp
      have here: "temps' ! k = ?temps ! k \<and> types' ! k = ?types ! k"
        using before by simp
      have agree: "(valid (fst (snd (?passed ! j))) \<longrightarrow>
                 temps' ! (k + j) = fst (snd (?passed ! j)) \<and>
                 types' ! (k + j) = fst (snd (snd (?passed ! j)))) \<and>
              (\<not> valid (fst (snd (?passed ! j))) \<longrightarrow>
                 temps' ! (k + j) = temps ! (k + j) \<and> types' ! (k + j) = types ! (k + j))"
        if j: "j < length (x # rest)" for j
      proof (cases j)
        case 0
        with here k Cons.prems show ?thesis by simp
      next
        case (Suc j')
        with j after have "(valid (fst (snd (passed ! j'))) \<longrightarrow>
                 temps' ! (Suc k + j') = fst (snd (passed ! j')) \<and>
                 types' ! (Suc k + j') = fst (snd (snd (passed ! j')))) \<and>
              (\<not> valid (fst (snd (passed ! j'))) \<longrightarrow>
                 temps' ! (Suc k + j') = ?temps ! (Suc k + j') \<and>
                 types' ! (Suc k + j') = ?types ! (Suc k + j'))"
          by simp
        then show ?thesis using Suc by simp
      qed
      from all result len kept agree show ?thesis
        by simp
    qed
  qed
qed

lemma functionCallCopyBacks_loop:
  assumes "length done = k" and "k + length todo = n" and "length fps = n"
    and "\<forall>j < length todo.
           (valid (fst (todo ! j)) \<longrightarrow>
              temps ! (k + j) = fst (todo ! j) \<and> types ! (k + j) = fst (snd (todo ! j))) \<and>
           (\<not> valid (fst (todo ! j)) \<longrightarrow> \<not> valid (temps ! (k + j)))"
  shows "functionCallCopyBacks [k ..< n] fps n temps types
           (below @ done @ map (\<lambda>a. snd (snd a)) todo) b =
         (case copyBackArguments (zip (map paramQualifier (drop k fps)) todo) b of
            Inl err \<Rightarrow> Inl err
          | Inr (params, b1) \<Rightarrow> Inr (below @ done @ params, b1))"
  using assms
proof (induction todo arbitrary: k "done" b)
  case Nil
  then show ?case by simp
next
  case (Cons x rest)
  obtain t ty p where x: "x = (t, ty, p)" by (cases x)
  from Cons.prems have k: "k < n" "k < length fps" by simp_all
  have range: "[k ..< n] = k # [Suc k ..< n]"
    using k by (simp add: upt_conv_Cons)
  have params: "drop k fps = fps ! k # drop (Suc k) fps"
    using k by (simp add: Cons_nth_drop_Suc)
  have lens: "length done = k" "k + length (p # map (\<lambda>a. snd (snd a)) rest) = n"
    using Cons.prems by simp_all
  note slot = slot_facts [OF lens, of below] slot_nth [OF lens(1)]
  from Cons.prems(4) [rule_format, of 0] x have first:
    "valid t \<longrightarrow> temps ! k = t \<and> types ! k = ty" "\<not> valid t \<longrightarrow> \<not> valid (temps ! k)"
    by simp_all
  have later: "\<forall>j < length rest.
           (valid (fst (rest ! j)) \<longrightarrow>
              temps ! (Suc k + j) = fst (rest ! j) \<and>
              types ! (Suc k + j) = fst (snd (rest ! j))) \<and>
           (\<not> valid (fst (rest ! j)) \<longrightarrow> \<not> valid (temps ! (Suc k + j)))"
  proof (intro allI impI)
    fix j assume "j < length rest"
    with Cons.prems(4) [rule_format, of "Suc j"]
    show "(valid (fst (rest ! j)) \<longrightarrow>
              temps ! (Suc k + j) = fst (rest ! j) \<and>
              types ! (Suc k + j) = fst (snd (rest ! j))) \<and>
           (\<not> valid (fst (rest ! j)) \<longrightarrow> \<not> valid (temps ! (Suc k + j)))"
      by simp
  qed
  have grown: "length (done @ [q]) = Suc k" for q
    using Cons.prems by simp
  have pre: "Suc k + length rest = n" "length fps = n"
    using Cons.prems by simp_all
  note IH = Cons.IH [OF _ pre later]
  show ?case
  proof (cases "valid t")
    case False
    with first have skip: "\<not> valid (temps ! k)" by simp
    have same: "functionCallCopyBack (paramQualifier (fps ! k)) t ty p b = Inr (p, b)"
      using False by (simp add: functionCallCopyBack_def)
    have "functionCallCopyBacks [k ..< n] fps n temps types
           (below @ done @ map (\<lambda>a. snd (snd a)) (x # rest)) b =
          functionCallCopyBacks [Suc k ..< n] fps n temps types
           (below @ (done @ [p]) @ map (\<lambda>a. snd (snd a)) rest) b"
      using skip x by (simp add: range)
    with IH [OF grown [of p], where b = b] same x show ?thesis
      by (simp add: params split: sum.splits prod.splits)
  next
    case True
    with first have temp: "temps ! k = t" "types ! k = ty" by simp_all
    show ?thesis
    proof (cases "functionCallCopyBack (paramQualifier (fps ! k)) t ty p b")
      case (Inl err)
      then show ?thesis
        using True temp k x by (simp add: range params slot)
    next
      case (Inr r)
      then obtain p1 b1 where
        one: "functionCallCopyBack (paramQualifier (fps ! k)) t ty p b = Inr (p1, b1)"
        by (cases r) auto
      have "functionCallCopyBacks [k ..< n] fps n temps types
           (below @ done @ map (\<lambda>a. snd (snd a)) (x # rest)) b =
          functionCallCopyBacks [Suc k ..< n] fps n temps types
           (below @ (done @ [p1]) @ map (\<lambda>a. snd (snd a)) rest) b1"
        using True temp k x one by (simp add: range slot)
      with IH [OF grown [of p1], where b = b1] one x show ?thesis
        by (simp add: params split: sum.splits prod.splits)
    qed
  qed
qed

lemma createFunctionCall_arguments:
  assumes count: "getChildCount node = length args"
    and params: "length (getParams node) = length args"
    and symbol: "mSymbolIdMap t (getFunction node) = Some functionId"
    and stack: "mNodeData t = below @ args"
  shows "createFunctionCall node resultTypeId t =
     (case passArguments (zip (getParams node) args) (mBuilder t) of
        Inl err \<Rightarrow> Inl err
      | Inr (passed, b1) \<Rightarrow>
          (case copyBackArguments
                  (zip (map paramQualifier (getParams node)) (map snd passed))
                  (b1\<lparr>mNextId := Suc (mNextId b1),
                      mSpirvCurrentFunctionBlock := mSpirvCurrentFunctionBlock b1 @
                        [OpFunctionCall resultTypeId (NewId (mNextId b1)) functionId
                           (map fst passed)]\<rparr>) of
             Inl err \<Rightarrow> Inl err
           | Inr (params, b2) \<Rightarrow>
               Inr (NewId (mNextId b1), t\<lparr>mBuilder := b2, mNodeData := below @ params\<rparr>)))"
proof -
  let ?n = "length args"
  let ?none = "replicate ?n InvalidId"
  have pre: "length ([] :: NodeData list) = 0" "0 + length args = ?n"
    "length (getParams node) = ?n" "length ?none = ?n" "length ?none = ?n"
    using params by simp_all
  note first = functionCallParameters_loop
    [OF pre, where b = "mBuilder t" and parameters = "[]" and below = below]
  show ?thesis
  proof (cases "passArguments (zip (getParams node) args) (mBuilder t)")
    case (Inl err)
    with first show ?thesis
      using count symbol stack by (simp add: createFunctionCall_def Let_def)
  next
    case (Inr r)
    then obtain passed b1 where
      pass: "passArguments (zip (getParams node) args) (mBuilder t) = Inr (passed, b1)"
      by (cases r) auto
    from first pass obtain temps' types' where
      run: "functionCallParameters [0 ..< ?n] (getParams node) ?n [] ?none ?none
              (below @ args) (mBuilder t) =
            Inr (map fst passed, temps', types',
                 below @ map (\<lambda>a. snd (snd (snd a))) passed, b1)" and
      len: "length passed = ?n" and
      agree: "\<forall>j < ?n.
              (valid (fst (snd (passed ! j))) \<longrightarrow>
                 temps' ! j = fst (snd (passed ! j)) \<and>
                 types' ! j = fst (snd (snd (passed ! j)))) \<and>
              (\<not> valid (fst (snd (passed ! j))) \<longrightarrow>
                 temps' ! j = ?none ! j \<and> types' ! j = ?none ! j)"
      by auto
    have temps: "\<forall>j < length (map snd passed).
           (valid (fst (map snd passed ! j)) \<longrightarrow>
              temps' ! (0 + j) = fst (map snd passed ! j) \<and>
              types' ! (0 + j) = fst (snd (map snd passed ! j))) \<and>
           (\<not> valid (fst (map snd passed ! j)) \<longrightarrow> \<not> valid (temps' ! (0 + j)))"
      using agree len by (simp add: valid_def)
    have pre2: "length ([] :: NodeData list) = 0" "0 + length (map snd passed) = ?n"
      "length (getParams node) = ?n"
      using len params by simp_all
    note second = functionCallCopyBacks_loop [OF pre2 temps, where below = below]
    have nodes: "map (\<lambda>a. snd (snd a)) (map snd passed) =
                 map (\<lambda>a. snd (snd (snd a))) passed"
      by simp
    show ?thesis
      using count symbol stack pass run second [unfolded nodes]
      by (simp add: createFunctionCall_def Let_def getNewId_def writeBlock_def
          split: sum.splits prod.splits)
  qed
qed

text \<open>
  C4, as amended.  For an argument whose parameter is of an opaque type or \<open>const\<close>, or
  that is an unindexed lvalue, no temporary variable is made and nothing is copied back; a
  \<open>const\<close> parameter is passed the loaded value.  For every other argument a variable of
  the Function storage class and of the type of the parameter is declared and passed: an
  \<open>out\<close> parameter gets it as it is, an \<open>in\<close> or \<open>inout\<close> parameter after the loaded
  value of the argument has been stored into it.  After the call, nothing is copied back for
  an \<open>in\<close> parameter, and for an \<open>out\<close> or \<open>inout\<close> parameter with a temporary variable
  the variable is loaded and the loaded value is stored through the access chain of the
  argument.  The last part is the call with any number of arguments, which are the upper
  entries of the node data stack: \<open>createFunctionCall\<close> does the above for every parameter
  with its argument, in their order, then writes \<open>OpFunctionCall\<close> with the values passed,
  then copies back for every parameter in their order, and leaves the node data of the
  arguments in the places of the arguments; it fails exactly when one of these steps fails,
  with the failure of that step.
\<close>

theorem createFunctionCall_parameter_passing:
  fixes fp :: TFunctionParam and param :: NodeData and b :: SPIRVBuilder
  defines "temporary \<equiv> NewId (mNextId b)"
  defines "declared \<equiv>
     b\<lparr>mNextId := Suc (mNextId b),
       mLocalVariables := mLocalVariables b @
         [OpVariable (TypePointerId (paramTypeId fp) StorageClassFunction) temporary
            StorageClassFunction]\<rparr>"
  defines "direct \<equiv> paramIsOpaqueType fp \<or> paramQualifier fp = EvqConst \<or>
                     IsAccessChainUnindexedLValue param"
  shows
    "(direct \<and> accessChainLoad param b = Inr (loaded, param1, b1) \<longrightarrow>
        (\<exists>passed. functionCallParameter fp param b =
                     Inr (passed, InvalidId, InvalidId, param1, b1) \<and>
                  (paramQualifier fp = EvqConst \<longrightarrow> passed = loaded)))
     \<and> (\<not> direct \<and> paramQualifier fp = EvqOut \<longrightarrow>
        functionCallParameter fp param b =
          Inr (temporary, temporary, paramTypeId fp, param, declared))
     \<and> (\<not> direct \<and> (paramQualifier fp = EvqIn \<or> paramQualifier fp = EvqInOut) \<and>
        accessChainLoad param declared = Inr (loaded, param1, b1) \<longrightarrow>
        functionCallParameter fp param b =
          Inr (temporary, temporary, paramTypeId fp, param1,
               b1\<lparr>mSpirvCurrentFunctionBlock := mSpirvCurrentFunctionBlock b1 @
                     [OpStore temporary loaded]\<rparr>))
     \<and> functionCallCopyBack q InvalidId tempVarTypeId param b = Inr (param, b)
     \<and> functionCallCopyBack EvqIn tempVarId tempVarTypeId param b = Inr (param, b)
     \<and> (valid tempVarId \<and> q \<noteq> EvqIn \<longrightarrow>
        functionCallCopyBack q tempVarId tempVarTypeId param b =
          accessChainStore param (NewId (mNextId b))
            (b\<lparr>mNextId := Suc (mNextId b),
               mSpirvCurrentFunctionBlock := mSpirvCurrentFunctionBlock b @
                 [OpLoad tempVarTypeId (NewId (mNextId b)) tempVarId]\<rparr>))
     \<and> (getChildCount node = length args \<and> length (getParams node) = length args \<and>
        mSymbolIdMap t (getFunction node) = Some functionId \<and>
        mNodeData t = below @ args \<longrightarrow>
        createFunctionCall node resultTypeId t =
          (case passArguments (zip (getParams node) args) (mBuilder t) of
             Inl err \<Rightarrow> Inl err
           | Inr (passed, bp) \<Rightarrow>
               (case copyBackArguments
                       (zip (map paramQualifier (getParams node)) (map snd passed))
                       (bp\<lparr>mNextId := Suc (mNextId bp),
                           mSpirvCurrentFunctionBlock := mSpirvCurrentFunctionBlock bp @
                             [OpFunctionCall resultTypeId (NewId (mNextId bp)) functionId
                                (map fst passed)]\<rparr>) of
                  Inl err \<Rightarrow> Inl err
                | Inr (params, bc) \<Rightarrow>
                    Inr (NewId (mNextId bp),
                         t\<lparr>mBuilder := bc, mNodeData := below @ params\<rparr>))))"
proof -
  have pass_direct: "\<exists>passed. functionCallParameter fp param b =
                     Inr (passed, InvalidId, InvalidId, param1, b1) \<and>
                  (paramQualifier fp = EvqConst \<longrightarrow> passed = loaded)"
    if "direct \<and> accessChainLoad param b = Inr (loaded, param1, b1)"
    using that by (auto simp: functionCallParameter_def direct_def)
  have pass_out: "functionCallParameter fp param b =
          Inr (temporary, temporary, paramTypeId fp, param, declared)"
    if "\<not> direct \<and> paramQualifier fp = EvqOut"
    using that
    by (simp add: functionCallParameter_def direct_def declared_def temporary_def
        declareVariable_def getNewId_def getTypePointerId_def Let_def)
  have pass_in: "functionCallParameter fp param b =
          Inr (temporary, temporary, paramTypeId fp, param1,
               b1\<lparr>mSpirvCurrentFunctionBlock := mSpirvCurrentFunctionBlock b1 @
                     [OpStore temporary loaded]\<rparr>)"
    if "\<not> direct \<and> (paramQualifier fp = EvqIn \<or> paramQualifier fp = EvqInOut) \<and>
        accessChainLoad param declared = Inr (loaded, param1, b1)"
    using that
    by (auto simp: functionCallParameter_def direct_def declared_def temporary_def
        declareVariable_def getNewId_def getTypePointerId_def writeBlock_def Let_def)
  have back_none: "functionCallCopyBack q InvalidId tempVarTypeId param b = Inr (param, b)"
    and back_in: "functionCallCopyBack EvqIn tempVarId tempVarTypeId param b = Inr (param, b)"
    by (simp_all add: copyBack_temporary valid_def)
  have copied: "functionCallCopyBack q tempVarId tempVarTypeId param b =
          accessChainStore param (NewId (mNextId b))
            (b\<lparr>mNextId := Suc (mNextId b),
               mSpirvCurrentFunctionBlock := mSpirvCurrentFunctionBlock b @
                 [OpLoad tempVarTypeId (NewId (mNextId b)) tempVarId]\<rparr>)"
    if "valid tempVarId \<and> q \<noteq> EvqIn"
    using that by (simp add: copyBack_temporary)
  have call: "createFunctionCall node resultTypeId t =
          (case passArguments (zip (getParams node) args) (mBuilder t) of
             Inl err \<Rightarrow> Inl err
           | Inr (passed, bp) \<Rightarrow>
               (case copyBackArguments
                       (zip (map paramQualifier (getParams node)) (map snd passed))
                       (bp\<lparr>mNextId := Suc (mNextId bp),
                           mSpirvCurrentFunctionBlock := mSpirvCurrentFunctionBlock bp @
                             [OpFunctionCall resultTypeId (NewId (mNextId bp)) functionId
                                (map fst passed)]\<rparr>) of
                  Inl err \<Rightarrow> Inl err
                | Inr (params, bc) \<Rightarrow>
                    Inr (NewId (mNextId bp),
                         t\<lparr>mBuilder := bc, mNodeData := below @ params\<rparr>)))"
    if "getChildCount node = length args \<and> length (getParams node) = length args \<and>
        mSymbolIdMap t (getFunction node) = Some functionId \<and>
        mNodeData t = below @ args"
    using that createFunctionCall_arguments [of node args t functionId below resultTypeId]
    by blast
  from pass_direct pass_out pass_in back_none back_in copied call show ?thesis by blast
qed

theorem createFunctionCall_parameter_passing_witness:
  "functionCallParameter outParam lvalueDynamicIndex exampleBuilder =
     Inr (NewId 10, NewId 10, NewId 6, lvalueDynamicIndex,
          exampleBuilder
            \<lparr>mNextId := 11,
             mLocalVariables :=
               [OpVariable (TypePointerId (NewId 6) StorageClassFunction) (NewId 10)
                  StorageClassFunction]\<rparr>)
   \<and> createFunctionCall callInOut (NewId 9) traverserInOut =
       Inr (NewId 12,
            traverserInOut
              \<lparr>mBuilder := exampleBuilder
                 \<lparr>mNextId := 15,
                  mLocalVariables :=
                    [OpVariable (TypePointerId (NewId 2) StorageClassFunction) (NewId 10)
                       StorageClassFunction,
                     OpVariable (TypePointerId (NewId 6) StorageClassFunction) (NewId 11)
                       StorageClassFunction],
                  mSpirvCurrentFunctionBlock :=
                    [OpStore (NewId 10) (NewId 1),
                     OpFunctionCall (NewId 9) (NewId 12) (NewId 8) [NewId 10, NewId 11],
                     OpLoad (NewId 6) (NewId 13) (NewId 11),
                     OpAccessChain (TypePointerId (NewId 6) StorageClassPrivate) (NewId 14)
                       (NewId 1) [UintConstant 3, NewId 7],
                     OpStore (NewId 14) (NewId 13)]\<rparr>,
               mNodeData :=
                 [emptyNodeData, rvalueUnindexed,
                  lvalueDynamicIndex\<lparr>accessChain := (accessChain lvalueDynamicIndex)
                     \<lparr>accessChainId := NewId 14\<rparr>\<rparr>]\<rparr>)"
proof -
  note passing = createFunctionCall_parameter_passing
    [where fp = outParam and param = lvalueDynamicIndex and b = exampleBuilder and
       node = callInOut and t = traverserInOut and
       args = "[rvalueUnindexed, lvalueDynamicIndex]" and below = "[emptyNodeData]" and
       functionId = "NewId 8" and resultTypeId = "NewId 9"]
  have indirect: "\<not> (paramIsOpaqueType outParam \<or> paramQualifier outParam = EvqConst \<or>
      IsAccessChainUnindexedLValue lvalueDynamicIndex) \<and> paramQualifier outParam = EvqOut"
    by (simp add: outParam_def lvalueDynamicIndex_def IsAccessChainUnindexedLValue_def
        example_defs)
  from passing [THEN conjunct2, THEN conjunct1, THEN mp, OF indirect]
  have one: "functionCallParameter outParam lvalueDynamicIndex exampleBuilder =
     Inr (NewId 10, NewId 10, NewId 6, lvalueDynamicIndex,
          exampleBuilder
            \<lparr>mNextId := 11,
             mLocalVariables :=
               [OpVariable (TypePointerId (NewId 6) StorageClassFunction) (NewId 10)
                  StorageClassFunction]\<rparr>)"
    by (simp add: outParam_def exampleBuilder_def)
  have node: "getChildCount callInOut = length [rvalueUnindexed, lvalueDynamicIndex] \<and>
      length (getParams callInOut) = length [rvalueUnindexed, lvalueDynamicIndex] \<and>
      mSymbolIdMap traverserInOut (getFunction callInOut) = Some (NewId 8) \<and>
      mNodeData traverserInOut = [emptyNodeData] @ [rvalueUnindexed, lvalueDynamicIndex]"
    by (simp add: callInOut_def traverserInOut_def)
  from passing [THEN conjunct2, THEN conjunct2, THEN conjunct2, THEN conjunct2, THEN conjunct2,
      THEN conjunct2, THEN mp, OF node]
  have call: "createFunctionCall callInOut (NewId 9) traverserInOut =
       Inr (NewId 12,
            traverserInOut
              \<lparr>mBuilder := exampleBuilder
                 \<lparr>mNextId := 15,
                  mLocalVariables :=
                    [OpVariable (TypePointerId (NewId 2) StorageClassFunction) (NewId 10)
                       StorageClassFunction,
                     OpVariable (TypePointerId (NewId 6) StorageClassFunction) (NewId 11)
                       StorageClassFunction],
                  mSpirvCurrentFunctionBlock :=
                    [OpStore (NewId 10) (NewId 1),
                     OpFunctionCall (NewId 9) (NewId 12) (NewId 8) [NewId 10, NewId 11],
                     OpLoad (NewId 6) (NewId 13) (NewId 11),
                     OpAccessChain (TypePointerId (NewId 6) StorageClassPrivate) (NewId 14)
                       (NewId 1) [UintConstant 3, NewId 7],
                     OpStore (NewId 14) (NewId 13)]\<rparr>,
               mNodeData :=
                 [emptyNodeData, rvalueUnindexed,
                  lvalueDynamicIndex\<lparr>accessChain := (accessChain lvalueDynamicIndex)
                     \<lparr>accessChainId := NewId 14\<rparr>\<rparr>]\<rparr>)"
    by (simp add: callInOut_def traverserInOut_def inParam_def outParam_def
        rvalueUnindexed_def lvalueDynamicIndex_def functionCallParameter_def
        functionCallCopyBack_def accessChainStore_def IsAccessChainUnindexedLValue_def
        example_defs load_defs)
  from one call show ?thesis by simp
qed

text \<open>
  C4 as it is stated fails for an \<open>in\<close> parameter whose argument is the rvalue with id 1:
  the call is passed the temporary variable with id 10, into which the value is stored, and
  not the loaded value.
\<close>

theorem createFunctionCall_in_parameter_temporary:
  "accessChainLoad rvalueUnindexed exampleBuilder =
     Inr (NewId 1, rvalueUnindexed, exampleBuilder)
   \<and> createFunctionCall callOneIn (NewId 9) traverserOneIn =
       Inr (NewId 11,
            traverserOneIn
              \<lparr>mBuilder := exampleBuilder
                 \<lparr>mNextId := 12,
                  mLocalVariables :=
                    [OpVariable (TypePointerId (NewId 2) StorageClassFunction) (NewId 10)
                       StorageClassFunction],
                  mSpirvCurrentFunctionBlock :=
                    [OpStore (NewId 10) (NewId 1),
                     OpFunctionCall (NewId 9) (NewId 11) (NewId 8) [NewId 10]]\<rparr>\<rparr>)"
  by (simp add: callOneIn_def traverserOneIn_def inParam_def rvalueUnindexed_def
      createFunctionCall_def functionCallParameter_def functionCallCopyBack_def paramSlot_def
      IsAccessChainUnindexedLValue_def example_defs load_defs)

subsection \<open>The node data stack over the traversal\<close>

text \<open>
  A block below the root whose statements each leave one entry leaves the node data as they
  were: each of its visits after a statement pops the entry of that statement.
\<close>

lemma traverseSequence_balanced:
  assumes "0 < depth"
    and "\<forall>s \<in> set statements. \<forall>n. traverse (Suc depth) s n = Inr (Suc n)"
  shows "statements \<noteq> [] \<Longrightarrow>
         traverseSequence depth childCount statements nodeDataSize = Inr nodeDataSize"
  using assms(2)
proof (induction statements arbitrary: nodeDataSize)
  case Nil
  then show ?case by simp
next
  case (Cons s rest)
  then show ?case using assms(1)
    by (cases rest) (simp_all add: visitBlock_def)
qed

lemma traverse_block_balanced:
  assumes "0 < depth"
    and "\<forall>s \<in> set statements. \<forall>n. traverse (Suc depth) s n = Inr (Suc n)"
  shows "traverse depth (TIntermBlock statements) nodeDataSize = Inr nodeDataSize"
  using assms traverseSequence_balanced [OF assms, of "length statements" nodeDataSize]
  by (cases statements) (simp_all add: visitBlock_def)

lemma traverse_statement:
  "traverse depth TIntermConstantUnion n = Inr (Suc n)"
  "traverse depth (TIntermBranch None) n = Inr (Suc n)"
  "traverse depth (TIntermBranch (Some TIntermConstantUnion)) n = Inr (Suc n)"
  by (simp_all add: visitConstantUnion_def visitBranch_def)

text \<open>
  C10 does not hold of \<open>void main() { { return; } }\<close>.  The inner block leaves no entry,
  by the lemma above, and the visit of the body after it pops from the empty vector.  Without
  the inner block the traversal ends with no entry left.
\<close>

theorem OutputSPIRV_nested_block:
  "OutputSPIRV mainWithNestedBlock = Inl (IndexOutOfRange ''mNodeData.pop_back()'')
   \<and> traverse 3 (TIntermBlock [TIntermBranch None]) 0 = Inr 0
   \<and> OutputSPIRV mainWithoutNestedBlock = Inr ()"
  by (simp add: mainWithNestedBlock_def mainWithoutNestedBlock_def OutputSPIRV_def
      visitBlock_def visitBranch_def visitConstantUnion_def)

end
